theory Spec2Isabelle
  imports Complex_Main
begin

section \<open>The waypoint updater of ros/src/waypoint\_updater/waypoint\_updater.py\<close>

text \<open>
  The node keeps the latest pose, path, stop index and velocity, and on every tick of its
  10 Hz loop publishes a window of waypoints with target speeds. Python floats are modelled
  as \<^typ>\<open>real\<close> (no rounding, no infinities, no NaN), Python integers as \<^typ>\<open>int\<close>,
  and every exception the code can raise is a value of \<open>error\<close>.
\<close>

subsection \<open>Messages\<close>

record point =
  p_x :: real
  p_y :: real
  p_z :: real

record quaternion =
  q_x :: real
  q_y :: real
  q_z :: real
  q_w :: real

text \<open>\<open>msg.pose\<close> of a PoseStamped, and \<open>wp.pose.pose\<close> of a Waypoint.\<close>

record pose =
  position :: point
  orientation :: quaternion

text \<open>A styx Waypoint: its pose and \<open>twist.twist.linear.x\<close>, the target speed.\<close>

record waypoint =
  wp_pose :: pose
  linear_x :: real

datatype error = IndexError | ZeroDivisionError

subsection \<open>Constants\<close>

definition LOOKAHEAD_WPS :: int where
  "LOOKAHEAD_WPS = 200"

definition MAX_DECEL :: real where
  "MAX_DECEL = 4.0"

definition STOP_BUFFER :: real where
  "STOP_BUFFER = 5.0"

subsection \<open>The node's attributes\<close>

text \<open>
  \<open>base_waypoints\<close>, \<open>current_pose\<close> and \<open>obstacle_waypoint\<close> do not exist until their
  callback has run (\<open>hasattr\<close> is the test for \<open>Some\<close>); the others are set by the
  constructor.
\<close>

record state =
  base_waypoints :: "waypoint list option"
  current_pose :: "pose option"
  obstacle_waypoint :: "int option"
  current_velocity :: real
  decel :: real
  traffic_waypoint :: int
  braking :: bool

definition init_state :: state where
  "init_state = \<lparr>base_waypoints = None, current_pose = None, obstacle_waypoint = None,
     current_velocity = 0.0, decel = 1.0, traffic_waypoint = - 1, braking = False\<rparr>"

subsection \<open>Python list subscripting and \<open>range\<close>\<close>

definition py_index :: "'a list \<Rightarrow> int \<Rightarrow> error + 'a" where
  "py_index xs i =
     (let n = int (length xs) in
      if 0 \<le> i \<and> i < n then Inr (xs ! nat i)
      else if - n \<le> i \<and> i < 0 then Inr (xs ! nat (n + i))
      else Inl IndexError)"

definition py_range :: "int \<Rightarrow> int \<Rightarrow> int list" where
  "py_range a b = [a..b - 1]"

subsection \<open>\<open>distance\<close>\<close>

definition distance :: "point \<Rightarrow> point \<Rightarrow> real" where
  "distance p1 p2 =
     (let x = p_x p1 - p_x p2;
          y = p_y p1 - p_y p2;
          z = p_z p1 - p_z p2
      in sqrt (x * x + y * y + z * z))"

subsection \<open>\<open>get_closest_waypoint\<close>\<close>

text \<open>
  \<open>closest_dist\<close> starts at \<open>float('inf')\<close>, here \<open>None\<close>: every distance is below it.
\<close>

fun below :: "real \<Rightarrow> real option \<Rightarrow> bool" where
  "below d None = True"
| "below d (Some c) = (d < c)"

text \<open>
  The loop \<open>for i in range(len(waypoints))\<close>: the waypoints still to visit, the index \<open>i\<close>
  of the first of them, and the two loop variables.
\<close>

fun closest_scan :: "pose \<Rightarrow> waypoint list \<Rightarrow> nat \<Rightarrow> real option \<Rightarrow> nat \<Rightarrow> nat" where
  "closest_scan ps [] i closest_dist closest_wp = closest_wp"
| "closest_scan ps (w # ws) i closest_dist closest_wp =
     (let dist = distance (position ps) (position (wp_pose w)) in
      if below dist closest_dist then closest_scan ps ws (Suc i) (Some dist) i
      else closest_scan ps ws (Suc i) closest_dist closest_wp)"

definition get_closest_waypoint :: "pose \<Rightarrow> waypoint list \<Rightarrow> nat" where
  "get_closest_waypoint ps waypoints = closest_scan ps waypoints 0 None 0"

subsection \<open>\<open>get_next_waypoint\<close>\<close>

text \<open>
  \<open>math.atan2\<close> and \<open>tf.transformations.euler_from_quaternion\<close> are library functions,
  not code of this repository: \<open>get_next_waypoint\<close> takes them as the parameters \<open>atan2\<close>
  and \<open>yaw\<close> (the last of the three Euler angles).
\<close>

definition get_next_waypoint ::
  "(real \<Rightarrow> real \<Rightarrow> real) \<Rightarrow> (quaternion \<Rightarrow> real) \<Rightarrow> pose \<Rightarrow> waypoint list \<Rightarrow> error + nat" where
  "get_next_waypoint atan2 yaw ps waypoints =
     (let closest_wp = get_closest_waypoint ps waypoints in
      case py_index waypoints (int closest_wp) of
        Inl e \<Rightarrow> Inl e
      | Inr w \<Rightarrow>
          (let wp_x = p_x (position (wp_pose w));
               wp_y = p_y (position (wp_pose w));
               heading = atan2 (wp_y - p_y (position ps)) (wp_x - p_x (position ps));
               theta = yaw (orientation ps);
               angle = \<bar>theta - heading\<bar>
           in Inr (if angle > pi / 4.0 then closest_wp + 1 else closest_wp)))"

text \<open>
  The functions the scenarios run with. \<open>math_atan2\<close> is the two-argument arctangent on
  the reals (without the signed zeros of floats).
\<close>

definition math_atan2 :: "real \<Rightarrow> real \<Rightarrow> real" where
  "math_atan2 y x =
     (if 0 < x then arctan (y / x)
      else if x < 0 then (if 0 \<le> y then arctan (y / x) + pi else arctan (y / x) - pi)
      else if 0 < y then pi / 2
      else if y < 0 then - pi / 2
      else 0)"

text \<open>
  Modelled from the spec: \<open>tf.transformations.euler_from_quaternion\<close> is not under src/;
  section 4.1 of the specification gives the yaw it returns as
  \<open>atan2(2(qw qz + qx qy), 1 - 2(qy^2 + qz^2))\<close>.
\<close>

definition quaternion_yaw :: "quaternion \<Rightarrow> real" where
  "quaternion_yaw q =
     math_atan2 (2 * (q_w q * q_z q + q_x q * q_y q)) (1 - 2 * (q_y q * q_y q + q_z q * q_z q))"

subsection \<open>\<open>get_final_waypoints\<close>\<close>

text \<open>The body of the loop, for one \<open>i\<close> of \<open>range(start_wp, end_wp)\<close>.\<close>

definition final_waypoint :: "state \<Rightarrow> waypoint list \<Rightarrow> int \<Rightarrow> int \<Rightarrow> error + waypoint" where
  "final_waypoint s waypoints end_wp i =
     (if length waypoints = 0 then Inl ZeroDivisionError
      else
        (let index = i mod int (length waypoints);
             src = wp_pose (waypoints ! nat index);
             wp = \<lparr>position = \<lparr>p_x = p_x (position src), p_y = p_y (position src),
                                 p_z = p_z (position src)\<rparr>,
                   orientation = orientation src\<rparr>
         in if \<not> braking s then Inr \<lparr>wp_pose = wp, linear_x = 15.0\<rparr>
            else
              (case py_index waypoints end_wp of
                 Inl e \<Rightarrow> Inl e
               | Inr stop \<Rightarrow>
                   (let dist = distance (position wp) (position (wp_pose stop)) in
                    if dist > STOP_BUFFER \<and> current_velocity s < 3.0
                      then Inr \<lparr>wp_pose = wp, linear_x = 3.0\<rparr>
                    else if dist \<le> STOP_BUFFER
                      then Inr \<lparr>wp_pose = wp, linear_x = 0.0\<rparr>
                    else if current_velocity s - real_of_int i > 3.0
                      then Inr \<lparr>wp_pose = wp,
                                linear_x = current_velocity s - real_of_int i * 0.5\<rparr>
                    else Inr \<lparr>wp_pose = wp, linear_x = 3.0\<rparr>))))"

text \<open>The loop: \<open>final_waypoints.append(wp)\<close> for each \<open>i\<close>, stopping at the first exception.\<close>

fun final_waypoints_loop ::
  "state \<Rightarrow> waypoint list \<Rightarrow> int \<Rightarrow> int list \<Rightarrow> waypoint list \<Rightarrow> error + waypoint list" where
  "final_waypoints_loop s waypoints end_wp [] final_waypoints = Inr final_waypoints"
| "final_waypoints_loop s waypoints end_wp (i # is) final_waypoints =
     (case final_waypoint s waypoints end_wp i of
        Inl e \<Rightarrow> Inl e
      | Inr wp \<Rightarrow> final_waypoints_loop s waypoints end_wp is (final_waypoints @ [wp]))"

definition get_final_waypoints ::
  "state \<Rightarrow> waypoint list \<Rightarrow> int \<Rightarrow> int \<Rightarrow> error + waypoint list" where
  "get_final_waypoints s waypoints start_wp end_wp =
     final_waypoints_loop s waypoints end_wp (py_range start_wp end_wp) []"

subsection \<open>\<open>loop\<close>: one tick\<close>

definition min_stopping_dist :: "real \<Rightarrow> real" where
  "min_stopping_dist v = v\<^sup>2 / (2.0 * MAX_DECEL) + STOP_BUFFER"

text \<open>
  A tick returns the attributes after it and the waypoints of the lane it published, if it
  published one. An exception leaves \<open>loop\<close> and the constructor: the node stops.
\<close>

definition loop ::
  "(real \<Rightarrow> real \<Rightarrow> real) \<Rightarrow> (quaternion \<Rightarrow> real) \<Rightarrow> state
     \<Rightarrow> error + state \<times> waypoint list option" where
  "loop atan2 yaw s =
     (case (base_waypoints s, current_pose s) of
        (Some wpts, Some ps) \<Rightarrow>
          (case get_next_waypoint atan2 yaw ps wpts of
             Inl e \<Rightarrow> Inl e
           | Inr next_wp \<Rightarrow>
               (let traffic_wp = traffic_waypoint s in
                case py_index wpts traffic_wp of
                  Inl e \<Rightarrow> Inl e
                | Inr tw \<Rightarrow>
                    (let tl_dist = distance (position ps) (position (wp_pose tw));
                         min_stopping = min_stopping_dist (current_velocity s)
                     in if traffic_wp = - 1 then
                          (let s1 = s\<lparr>braking := False\<rparr> in
                           case get_final_waypoints s1 wpts (int next_wp)
                                  (int next_wp + LOOKAHEAD_WPS) of
                             Inl e \<Rightarrow> Inl e
                           | Inr lane \<Rightarrow> Inr (s1, Some lane))
                        else if \<not> braking s \<and> tl_dist < min_stopping then
                          (case get_final_waypoints s wpts (int next_wp)
                                  (int next_wp + LOOKAHEAD_WPS) of
                             Inl e \<Rightarrow> Inl e
                           | Inr lane \<Rightarrow> Inr (s, Some lane))
                        else
                          (let s1 = s\<lparr>braking := True\<rparr> in
                           case get_final_waypoints s1 wpts (int next_wp) traffic_wp of
                             Inl e \<Rightarrow> Inl e
                           | Inr lane \<Rightarrow> Inr (s1, Some lane)))))
      | _ \<Rightarrow> Inr (s, None))"

subsection \<open>The callbacks and the node's run\<close>

definition current_pose_cb :: "pose \<Rightarrow> state \<Rightarrow> state" where
  "current_pose_cb msg s = s\<lparr>current_pose := Some msg\<rparr>"

definition base_waypoints_cb :: "waypoint list \<Rightarrow> state \<Rightarrow> state" where
  "base_waypoints_cb msg s = s\<lparr>base_waypoints := Some msg\<rparr>"

definition traffic_waypoint_cb :: "int \<Rightarrow> state \<Rightarrow> state" where
  "traffic_waypoint_cb msg s = s\<lparr>traffic_waypoint := msg\<rparr>"

definition current_velocity_cb :: "real \<Rightarrow> state \<Rightarrow> state" where
  "current_velocity_cb msg s = s\<lparr>current_velocity := msg\<rparr>"

definition obstacle_waypoint_cb :: "int \<Rightarrow> state \<Rightarrow> state" where
  "obstacle_waypoint_cb msg s = s\<lparr>obstacle_waypoint := Some msg\<rparr>"

text \<open>
  What happens to the node, one event at a time: a message on one of the five topics, or a
  tick of the loop. A run stops at the first exception.
\<close>

datatype event =
    CurrentPose pose
  | BaseWaypoints "waypoint list"
  | TrafficWaypoint int
  | ObstacleWaypoint int
  | CurrentVelocity real
  | Tick

fun handle :: "(real \<Rightarrow> real \<Rightarrow> real) \<Rightarrow> (quaternion \<Rightarrow> real) \<Rightarrow> event \<Rightarrow> state \<Rightarrow> error + state" where
  "handle atan2 yaw (CurrentPose msg) s = Inr (current_pose_cb msg s)"
| "handle atan2 yaw (BaseWaypoints msg) s = Inr (base_waypoints_cb msg s)"
| "handle atan2 yaw (TrafficWaypoint msg) s = Inr (traffic_waypoint_cb msg s)"
| "handle atan2 yaw (ObstacleWaypoint msg) s = Inr (obstacle_waypoint_cb msg s)"
| "handle atan2 yaw (CurrentVelocity msg) s = Inr (current_velocity_cb msg s)"
| "handle atan2 yaw Tick s =
     (case loop atan2 yaw s of Inl e \<Rightarrow> Inl e | Inr (s', published) \<Rightarrow> Inr s')"

fun run :: "(real \<Rightarrow> real \<Rightarrow> real) \<Rightarrow> (quaternion \<Rightarrow> real) \<Rightarrow> event list \<Rightarrow> state \<Rightarrow> error + state" where
  "run atan2 yaw [] s = Inr s"
| "run atan2 yaw (e # es) s =
     (case handle atan2 yaw e s of Inl err \<Rightarrow> Inl err | Inr s' \<Rightarrow> run atan2 yaw es s')"

subsection \<open>The braking speed rule, as the specification words it\<close>

text \<open>
  Section 4.3 of the specification: the speed of a waypoint of the braking window from the
  velocity \<open>v\<close>, the number \<open>i\<close> the rule counts with, and the distance \<open>d\<close> of the
  waypoint to the stop waypoint. It is compared below with what \<open>final_waypoint\<close> assigns.
\<close>

definition spec_braking_speed :: "real \<Rightarrow> int \<Rightarrow> real \<Rightarrow> real" where
  "spec_braking_speed v i d =
     (if d > 5.0 \<and> v < 3.0 then 3.0
      else if d \<le> 5.0 then 0
      else if v - real_of_int i > 3.0 then v - real_of_int i * 0.5
      else 3.0)"

subsection \<open>Reading a tick's result\<close>

definition tick_state :: "error + state \<times> waypoint list option \<Rightarrow> state option" where
  "tick_state r = (case r of Inl e \<Rightarrow> None | Inr (s, published) \<Rightarrow> Some s)"

definition tick_lane :: "error + state \<times> waypoint list option \<Rightarrow> waypoint list option" where
  "tick_lane r = (case r of Inl e \<Rightarrow> None | Inr (s, published) \<Rightarrow> published)"

subsection \<open>The scenarios of the specification\<close>

text \<open>
  Section 8 of the specification: a path of waypoints along the x-axis at 1 m spacing, the
  vehicle on the axis and heading along it, velocity 5.0 and stop index 200.
\<close>

definition q_identity :: quaternion where
  "q_identity = \<lparr>q_x = 0, q_y = 0, q_z = 0, q_w = 1\<rparr>"

definition on_axis :: "real \<Rightarrow> pose" where
  "on_axis a = \<lparr>position = \<lparr>p_x = a, p_y = 0, p_z = 0\<rparr>, orientation = q_identity\<rparr>"

definition straight_path :: "nat \<Rightarrow> waypoint list" where
  "straight_path n = map (\<lambda>k. \<lparr>wp_pose = on_axis (real k), linear_x = 0\<rparr>) [0..<n]"

definition scenario :: "real \<Rightarrow> int \<Rightarrow> bool \<Rightarrow> state" where
  "scenario a stop b =
     \<lparr>base_waypoints = Some (straight_path 300), current_pose = Some (on_axis a),
      obstacle_waypoint = None, current_velocity = 5.0, decel = 1.0,
      traffic_waypoint = stop, braking = b\<rparr>"

definition scenario_A :: state where
  "scenario_A = scenario 0 200 False"

definition scenario_B :: state where
  "scenario_B = scenario 194 200 False"

text \<open>
  The braking window \<open>[a, e)\<close> on the straight path at velocity \<open>v\<close>, written out: waypoint
  \<open>i\<close> lies at \<open>x = i\<close>, at distance \<open>|i - e|\<close> of the stop waypoint.
\<close>

definition straight_braking_window :: "real \<Rightarrow> int \<Rightarrow> int \<Rightarrow> waypoint list" where
  "straight_braking_window v a e =
     map (\<lambda>i. \<lparr>wp_pose = on_axis (real_of_int i),
                linear_x = spec_braking_speed v i \<bar>real_of_int i - real_of_int e\<bar>\<rparr>)
       (py_range a e)"

text \<open>The cruise window of 200 waypoints from \<open>a\<close> on the straight path of \<open>n\<close> waypoints.\<close>

definition straight_cruise_window :: "nat \<Rightarrow> int \<Rightarrow> waypoint list" where
  "straight_cruise_window n a =
     map (\<lambda>i. \<lparr>wp_pose = on_axis (real (nat (i mod int n))), linear_x = 15.0\<rparr>)
       (py_range a (a + LOOKAHEAD_WPS))"

section \<open>Properties\<close>

lemma distance_nonneg: "0 \<le> distance p q"
  by (simp add: distance_def Let_def)

subsection \<open>Subscripting, ranges and the window loop\<close>

lemma py_index_in_range:
  "0 \<le> i \<Longrightarrow> i < int (length xs) \<Longrightarrow> py_index xs i = Inr (xs ! nat i)"
  by (simp add: py_index_def)

lemma py_index_Inr_iff:
  "(\<exists>v. py_index xs i = Inr v) \<longleftrightarrow> - int (length xs) \<le> i \<and> i < int (length xs)"
  by (simp add: py_index_def Let_def) arith

lemma length_py_range: "length (py_range a b) = nat (b - a)"
  by (simp add: py_range_def)

lemma nth_py_range: "k < nat (b - a) \<Longrightarrow> py_range a b ! k = a + int k"
  by (simp add: py_range_def)

lemma final_waypoints_loop_append:
  "final_waypoints_loop s wpts e is acc =
     (case final_waypoints_loop s wpts e is [] of Inl err \<Rightarrow> Inl err | Inr ws \<Rightarrow> Inr (acc @ ws))"
proof (induction "is" arbitrary: acc)
  case Nil
  show ?case by simp
next
  case (Cons i "is")
  show ?case
  proof (cases "final_waypoint s wpts e i")
    case (Inl err)
    then show ?thesis by simp
  next
    case (Inr wp)
    have a: "final_waypoints_loop s wpts e (i # is) acc = final_waypoints_loop s wpts e is (acc @ [wp])"
      using Inr by simp
    have b: "final_waypoints_loop s wpts e (i # is) [] = final_waypoints_loop s wpts e is [wp]"
      using Inr by simp
    have c: "final_waypoints_loop s wpts e is (acc @ [wp]) =
        (case final_waypoints_loop s wpts e is [] of
           Inl err \<Rightarrow> Inl err | Inr ws \<Rightarrow> Inr ((acc @ [wp]) @ ws))"
      by (rule Cons.IH)
    have d: "final_waypoints_loop s wpts e is [wp] =
        (case final_waypoints_loop s wpts e is [] of
           Inl err \<Rightarrow> Inl err | Inr ws \<Rightarrow> Inr ([wp] @ ws))"
      by (rule Cons.IH)
    show ?thesis
      unfolding a b c d by (simp split: sum.split)
  qed
qed

lemma final_waypoints_loop_Inr:
  "final_waypoints_loop s wpts e is [] = Inr ws \<longleftrightarrow>
     list_all2 (\<lambda>i w. final_waypoint s wpts e i = Inr w) is ws"
proof (induction "is" arbitrary: ws)
  case Nil
  show ?case by auto
next
  case (Cons i "is")
  show ?case
  proof (cases "final_waypoint s wpts e i")
    case (Inl err)
    then show ?thesis by (simp add: list_all2_Cons1)
  next
    case (Inr wp)
    have b: "final_waypoints_loop s wpts e (i # is) [] =
        (case final_waypoints_loop s wpts e is [] of Inl err \<Rightarrow> Inl err | Inr vs \<Rightarrow> Inr (wp # vs))"
      using Inr final_waypoints_loop_append [of s wpts e "is" "[wp]"]
      by (simp split: sum.split)
    show ?thesis
    proof (cases "final_waypoints_loop s wpts e is []")
      case (Inl err)
      then have "\<And>vs. \<not> list_all2 (\<lambda>i w. final_waypoint s wpts e i = Inr w) is vs"
        using Cons.IH by simp
      then show ?thesis using b Inl by (simp add: list_all2_Cons1)
    next
      case inr: (Inr vs)
      then have "\<And>us. list_all2 (\<lambda>i w. final_waypoint s wpts e i = Inr w) is us \<longleftrightarrow> us = vs"
        unfolding Cons.IH [symmetric] by auto
      then show ?thesis using b inr Inr by (auto simp add: list_all2_Cons1)
    qed
  qed
qed

lemma get_final_waypoints_Inr:
  "get_final_waypoints s wpts a b = Inr ws \<longleftrightarrow>
     length ws = nat (b - a) \<and>
     (\<forall>k < nat (b - a). final_waypoint s wpts b (a + int k) = Inr (ws ! k))"
  unfolding get_final_waypoints_def final_waypoints_loop_Inr list_all2_conv_all_nth length_py_range
  using nth_py_range [of _ b a] by auto

subsection \<open>One waypoint of the window\<close>

lemma point_copy: "\<lparr>p_x = p_x p, p_y = p_y p, p_z = p_z p\<rparr> = (p::point)"
  by simp

lemma pose_copy: "\<lparr>position = position q, orientation = orientation q\<rparr> = (q::pose)"
  by simp

lemma final_waypoint_cruise:
  assumes "wpts \<noteq> []" "\<not> braking s"
  shows "final_waypoint s wpts e i =
     Inr \<lparr>wp_pose = wp_pose (wpts ! nat (i mod int (length wpts))), linear_x = 15\<rparr>"
  using assms by (simp add: final_waypoint_def Let_def point_copy pose_copy)

lemma final_waypoint_braking:
  assumes "wpts \<noteq> []" "braking s" "py_index wpts e = Inr stop"
  shows "final_waypoint s wpts e i =
     Inr \<lparr>wp_pose = wp_pose (wpts ! nat (i mod int (length wpts))),
          linear_x = spec_braking_speed (current_velocity s) i
            (distance (position (wp_pose (wpts ! nat (i mod int (length wpts)))))
               (position (wp_pose stop)))\<rparr>"
  using assms
  by (simp add: final_waypoint_def Let_def spec_braking_speed_def STOP_BUFFER_def
        point_copy pose_copy)

lemma final_waypoint_nonempty:
  "final_waypoint s wpts e i = Inr w \<Longrightarrow> wpts \<noteq> []"
  by (auto simp: final_waypoint_def)

lemma final_waypoint_braking_index:
  "final_waypoint s wpts e i = Inr w \<Longrightarrow> braking s \<Longrightarrow> \<exists>stop. py_index wpts e = Inr stop"
  by (cases "py_index wpts e") (auto simp: final_waypoint_def Let_def split: if_splits)

lemma final_waypoint_total:
  assumes "wpts \<noteq> []"
    and "braking s \<Longrightarrow> - int (length wpts) \<le> e \<and> e < int (length wpts)"
  shows "\<exists>w. final_waypoint s wpts e i = Inr w"
proof (cases "braking s")
  case False
  then show ?thesis using final_waypoint_cruise [OF assms(1)] by blast
next
  case True
  then obtain stop where "py_index wpts e = Inr stop"
    using assms(2) py_index_Inr_iff [of wpts e] by blast
  then show ?thesis using final_waypoint_braking [OF assms(1) True] by blast
qed

lemma get_final_waypoints_total:
  assumes "wpts \<noteq> []"
    and "braking s \<Longrightarrow> - int (length wpts) \<le> e \<and> e < int (length wpts)"
  shows "\<exists>ws. get_final_waypoints s wpts a e = Inr ws"
proof -
  define f where "f k = (SOME w. final_waypoint s wpts e (a + int k) = Inr w)" for k
  have f: "final_waypoint s wpts e (a + int k) = Inr (f k)" for k
    unfolding f_def using final_waypoint_total [OF assms] by (rule someI_ex)
  have "get_final_waypoints s wpts a e = Inr (map f [0..<nat (e - a)])"
    unfolding get_final_waypoints_Inr using f by simp
  then show ?thesis by blast
qed

lemma spec_braking_speed_gap:
  "(d \<le> 5 \<and> spec_braking_speed v i d = 0) \<or> (5 < d \<and> 3 \<le> spec_braking_speed v i d)"
proof (cases "0 \<le> i")
  case True
  then have "0 \<le> real_of_int i" by simp
  then show ?thesis by (auto simp: spec_braking_speed_def)
next
  case False
  then have "real_of_int i < 0" by simp
  then show ?thesis by (auto simp: spec_braking_speed_def)
qed

lemma spec_braking_speed_nonneg: "0 \<le> spec_braking_speed v i d"
  using spec_braking_speed_gap [of d v i] by linarith

lemma final_waypoint_speed_nonneg:
  assumes "final_waypoint s wpts e i = Inr w"
  shows "0 \<le> linear_x w"
proof (cases "braking s")
  case False
  then show ?thesis
    using assms final_waypoint_cruise [OF final_waypoint_nonempty [OF assms] False, of e i] by auto
next
  case True
  obtain stop where stop: "py_index wpts e = Inr stop"
    using final_waypoint_braking_index [OF assms True] by blast
  show ?thesis
    using assms final_waypoint_braking [OF final_waypoint_nonempty [OF assms] True stop, of i]
      spec_braking_speed_nonneg [of "current_velocity s" i]
    by auto
qed

lemma get_final_waypoints_elem:
  assumes "get_final_waypoints s wpts a b = Inr ws" "w \<in> set ws"
  shows "\<exists>k < nat (b - a). final_waypoint s wpts b (a + int k) = Inr w"
  using assms unfolding get_final_waypoints_Inr in_set_conv_nth by auto

lemma loop_published:
  assumes "loop atan2 yaw s = Inr (s', Some lane)"
  shows "\<exists>wpts a b. base_waypoints s = Some wpts \<and> get_final_waypoints s' wpts a b = Inr lane"
  using assms
  by (auto simp: loop_def Let_def split: option.splits sum.splits if_splits)

subsection \<open>The scan for the closest waypoint\<close>

lemma below_trans: "d' < d \<Longrightarrow> below d c \<Longrightarrow> below d' c"
  by (cases c) auto

lemma below_not_below: "below d' c \<Longrightarrow> \<not> below d c \<Longrightarrow> d' < d"
  by (cases c) auto

text \<open>What the scan returns: the variable it started with, when no waypoint is below the
  starting distance; otherwise the first index whose distance is least.\<close>

lemma closest_scan_result:
  fixes ps :: pose
  defines "d \<equiv> \<lambda>w. distance (position ps) (position (wp_pose w))"
  shows "(closest_scan ps ws i cd cw = cw \<and> (\<forall>w \<in> set ws. \<not> below (d w) cd)) \<or>
         (\<exists>k < length ws. closest_scan ps ws i cd cw = i + k \<and> below (d (ws ! k)) cd \<and>
            (\<forall>j < length ws. d (ws ! k) \<le> d (ws ! j)) \<and> (\<forall>j < k. d (ws ! k) < d (ws ! j)))"
proof (induction ws arbitrary: i cd cw)
  case Nil
  show ?case by simp
next
  case (Cons w ws)
  show ?case
  proof (cases "below (d w) cd")
    case True
    then have step: "closest_scan ps (w # ws) i cd cw = closest_scan ps ws (Suc i) (Some (d w)) i"
      by (simp add: d_def)
    from Cons.IH [of "Suc i" "Some (d w)" i]
    consider
      (keep) "closest_scan ps ws (Suc i) (Some (d w)) i = i" "\<forall>v \<in> set ws. \<not> below (d v) (Some (d w))"
    | (move) k where "k < length ws" "closest_scan ps ws (Suc i) (Some (d w)) i = Suc i + k"
        "below (d (ws ! k)) (Some (d w))" "\<forall>j < length ws. d (ws ! k) \<le> d (ws ! j)"
        "\<forall>j < k. d (ws ! k) < d (ws ! j)"
      by blast
    then show ?thesis
    proof cases
      case keep
      have "\<forall>j < length (w # ws). d ((w # ws) ! 0) \<le> d ((w # ws) ! j)"
      proof (intro allI impI)
        fix j assume "j < length (w # ws)"
        then show "d ((w # ws) ! 0) \<le> d ((w # ws) ! j)"
          using keep(2) by (cases j) (auto simp: not_less)
      qed
      then have "0 < length (w # ws) \<and> closest_scan ps (w # ws) i cd cw = i + 0 \<and>
          below (d ((w # ws) ! 0)) cd \<and>
          (\<forall>j < length (w # ws). d ((w # ws) ! 0) \<le> d ((w # ws) ! j)) \<and>
          (\<forall>j < 0. d ((w # ws) ! 0) < d ((w # ws) ! j))"
        using step keep(1) True by simp
      then show ?thesis by blast
    next
      case move
      have lt: "d (ws ! k) < d w" using move(3) by simp
      have a: "below (d ((w # ws) ! Suc k)) cd"
        using below_trans [OF lt True] by simp
      have b: "\<forall>j < length (w # ws). d ((w # ws) ! Suc k) \<le> d ((w # ws) ! j)"
      proof (intro allI impI)
        fix j assume "j < length (w # ws)"
        then show "d ((w # ws) ! Suc k) \<le> d ((w # ws) ! j)"
          using move(4) lt by (cases j) auto
      qed
      have c: "\<forall>j < Suc k. d ((w # ws) ! Suc k) < d ((w # ws) ! j)"
      proof (intro allI impI)
        fix j assume "j < Suc k"
        then show "d ((w # ws) ! Suc k) < d ((w # ws) ! j)"
          using move(5) lt by (cases j) auto
      qed
      have "Suc k < length (w # ws) \<and> closest_scan ps (w # ws) i cd cw = i + Suc k"
        using step move(1,2) by simp
      then show ?thesis using a b c by blast
    qed
  next
    case False
    then have step: "closest_scan ps (w # ws) i cd cw = closest_scan ps ws (Suc i) cd cw"
      by (simp add: d_def)
    from Cons.IH [of "Suc i" cd cw]
    consider
      (keep) "closest_scan ps ws (Suc i) cd cw = cw" "\<forall>v \<in> set ws. \<not> below (d v) cd"
    | (move) k where "k < length ws" "closest_scan ps ws (Suc i) cd cw = Suc i + k"
        "below (d (ws ! k)) cd" "\<forall>j < length ws. d (ws ! k) \<le> d (ws ! j)"
        "\<forall>j < k. d (ws ! k) < d (ws ! j)"
      by blast
    then show ?thesis
    proof cases
      case keep
      then show ?thesis using step False by simp
    next
      case move
      have lt: "d (ws ! k) < d w" using below_not_below [OF move(3) False] .
      have a: "below (d ((w # ws) ! Suc k)) cd"
        using move(3) by simp
      have b: "\<forall>j < length (w # ws). d ((w # ws) ! Suc k) \<le> d ((w # ws) ! j)"
      proof (intro allI impI)
        fix j assume "j < length (w # ws)"
        then show "d ((w # ws) ! Suc k) \<le> d ((w # ws) ! j)"
          using move(4) lt by (cases j) auto
      qed
      have c: "\<forall>j < Suc k. d ((w # ws) ! Suc k) < d ((w # ws) ! j)"
      proof (intro allI impI)
        fix j assume "j < Suc k"
        then show "d ((w # ws) ! Suc k) < d ((w # ws) ! j)"
          using move(5) lt by (cases j) auto
      qed
      have "Suc k < length (w # ws) \<and> closest_scan ps (w # ws) i cd cw = i + Suc k"
        using step move(1,2) by simp
      then show ?thesis using a b c by blast
    qed
  qed
qed

lemma get_closest_waypoint_result:
  assumes "wpts \<noteq> []"
  shows "get_closest_waypoint ps wpts < length wpts \<and>
    (\<forall>j < length wpts.
        distance (position ps) (position (wp_pose (wpts ! get_closest_waypoint ps wpts)))
          \<le> distance (position ps) (position (wp_pose (wpts ! j)))) \<and>
    (\<forall>j < get_closest_waypoint ps wpts.
        distance (position ps) (position (wp_pose (wpts ! get_closest_waypoint ps wpts)))
          < distance (position ps) (position (wp_pose (wpts ! j))))"
proof -
  have "\<not> (\<forall>w \<in> set wpts. \<not> below (distance (position ps) (position (wp_pose w))) None)"
    using assms by (cases wpts) auto
  then show ?thesis
    using closest_scan_result [of ps wpts 0 None 0] unfolding get_closest_waypoint_def
    by auto
qed

subsection \<open>The next waypoint and the tick\<close>

lemma get_next_waypoint_eq:
  assumes "wpts \<noteq> []"
  shows "get_next_waypoint atan2 yaw ps wpts =
     Inr (if \<bar>yaw (orientation ps)
               - atan2 (p_y (position (wp_pose (wpts ! get_closest_waypoint ps wpts)))
                          - p_y (position ps))
                       (p_x (position (wp_pose (wpts ! get_closest_waypoint ps wpts)))
                          - p_x (position ps))\<bar> > pi / 4
          then get_closest_waypoint ps wpts + 1 else get_closest_waypoint ps wpts)"
proof -
  have "get_closest_waypoint ps wpts < length wpts"
    using get_closest_waypoint_result [OF assms] by blast
  then have "py_index wpts (int (get_closest_waypoint ps wpts)) =
      Inr (wpts ! get_closest_waypoint ps wpts)"
    by (simp add: py_index_in_range)
  then show ?thesis
    by (simp add: get_next_waypoint_def Let_def)
qed

lemma loop_ready:
  assumes "base_waypoints s = Some wpts" "current_pose s = Some ps"
    and "get_next_waypoint atan2 yaw ps wpts = Inr next_wp"
    and "py_index wpts (traffic_waypoint s) = Inr tw"
  shows "loop atan2 yaw s =
    (if traffic_waypoint s = - 1 then
       (case get_final_waypoints (s\<lparr>braking := False\<rparr>) wpts (int next_wp)
               (int next_wp + LOOKAHEAD_WPS) of
          Inl e \<Rightarrow> Inl e
        | Inr lane \<Rightarrow> Inr (s\<lparr>braking := False\<rparr>, Some lane))
     else if \<not> braking s \<and>
          distance (position ps) (position (wp_pose tw)) < min_stopping_dist (current_velocity s) then
       (case get_final_waypoints s wpts (int next_wp) (int next_wp + LOOKAHEAD_WPS) of
          Inl e \<Rightarrow> Inl e
        | Inr lane \<Rightarrow> Inr (s, Some lane))
     else
       (case get_final_waypoints (s\<lparr>braking := True\<rparr>) wpts (int next_wp) (traffic_waypoint s) of
          Inl e \<Rightarrow> Inl e
        | Inr lane \<Rightarrow> Inr (s\<lparr>braking := True\<rparr>, Some lane)))"
  using assms by (simp add: loop_def Let_def)

lemma loop_not_ready:
  "base_waypoints s = None \<or> current_pose s = None \<Longrightarrow> loop atan2 yaw s = Inr (s, None)"
  by (auto simp: loop_def split: option.splits)

subsection \<open>The straight path\<close>

lemma distance_on_axis: "distance (position (on_axis a)) (position (on_axis b)) = \<bar>a - b\<bar>"
  by (simp add: distance_def on_axis_def)

lemma length_straight_path: "length (straight_path n) = n"
  by (simp add: straight_path_def)

lemma nth_straight_path:
  "k < n \<Longrightarrow> straight_path n ! k = \<lparr>wp_pose = on_axis (real k), linear_x = 0\<rparr>"
  by (simp add: straight_path_def)

lemma closest_on_straight_path:
  assumes "m < n"
  shows "get_closest_waypoint (on_axis (real m)) (straight_path n) = m"
proof -
  let ?c = "get_closest_waypoint (on_axis (real m)) (straight_path n)"
  have ne: "straight_path n \<noteq> []"
    using assms length_straight_path [of n] by auto
  have c: "?c < n"
    using get_closest_waypoint_result [OF ne, of "on_axis (real m)"] length_straight_path [of n]
    by simp
  have "distance (position (on_axis (real m))) (position (wp_pose (straight_path n ! ?c)))
      \<le> distance (position (on_axis (real m))) (position (wp_pose (straight_path n ! m)))"
    using get_closest_waypoint_result [OF ne, of "on_axis (real m)"] assms
      length_straight_path [of n] by simp
  then have "\<bar>real m - real ?c\<bar> \<le> 0"
    using c assms by (simp add: nth_straight_path distance_on_axis)
  then show ?thesis by simp
qed

lemma math_atan2_zero: "math_atan2 0 0 = 0"
  by (simp add: math_atan2_def)

lemma quaternion_yaw_identity: "quaternion_yaw q_identity = 0"
  by (simp add: quaternion_yaw_def q_identity_def math_atan2_def)

lemma next_on_straight_path:
  assumes "m < n"
  shows "get_next_waypoint math_atan2 quaternion_yaw (on_axis (real m)) (straight_path n) = Inr m"
proof -
  have ne: "straight_path n \<noteq> []"
    using assms length_straight_path [of n] by auto
  have o: "orientation (on_axis (real m)) = q_identity"
    by (simp add: on_axis_def)
  have p: "p_x (position (on_axis a)) = a \<and> p_y (position (on_axis a)) = 0" for a
    by (simp add: on_axis_def)
  show ?thesis
    unfolding get_next_waypoint_eq [OF ne] closest_on_straight_path [OF assms]
    using assms
    by (simp add: nth_straight_path o p math_atan2_zero quaternion_yaw_identity)
qed

lemma final_waypoint_straight:
  assumes "braking s" "0 \<le> i" "i < int n" "0 \<le> e" "e < int n"
  shows "final_waypoint s (straight_path n) e i =
     Inr \<lparr>wp_pose = on_axis (real_of_int i),
          linear_x = spec_braking_speed (current_velocity s) i \<bar>real_of_int i - real_of_int e\<bar>\<rparr>"
proof -
  have ne: "straight_path n \<noteq> []"
    using assms length_straight_path [of n] by auto
  have stop: "py_index (straight_path n) e = Inr (straight_path n ! nat e)"
    using assms by (simp add: py_index_in_range length_straight_path)
  have i: "nat (i mod int n) = nat i"
    using assms by simp
  have "nat i < n" "nat e < n" using assms by auto
  then show ?thesis
    unfolding final_waypoint_braking [OF ne assms(1) stop] length_straight_path i
    using assms by (simp add: nth_straight_path distance_on_axis)
qed

lemma final_waypoint_straight_cruise:
  assumes "\<not> braking s" "0 < n"
  shows "final_waypoint s (straight_path n) e i =
     Inr \<lparr>wp_pose = on_axis (real (nat (i mod int n))), linear_x = 15\<rparr>"
proof -
  have ne: "straight_path n \<noteq> []"
    using assms length_straight_path [of n] by auto
  have "0 \<le> i mod int n" "i mod int n < int n"
    using assms(2) by simp_all
  then have "nat (i mod int n) < n" by linarith
  then show ?thesis
    unfolding final_waypoint_cruise [OF ne assms(1)] length_straight_path
    by (simp add: nth_straight_path)
qed

lemma final_waypoint_pose:
  assumes "final_waypoint s wpts e i = Inr w"
  shows "wp_pose w = wp_pose (wpts ! nat (i mod int (length wpts)))"
proof (cases "braking s")
  case False
  then show ?thesis
    using assms final_waypoint_cruise [OF final_waypoint_nonempty [OF assms] False, of e i] by auto
next
  case True
  obtain stop where stop: "py_index wpts e = Inr stop"
    using final_waypoint_braking_index [OF assms True] by blast
  show ?thesis
    using assms final_waypoint_braking [OF final_waypoint_nonempty [OF assms] True stop, of i]
    by auto
qed

subsection \<open>Ticks of the scenarios\<close>

lemma get_final_waypoints_straight_braking:
  assumes "braking s" "0 \<le> a" "0 \<le> e" "e < int n"
  shows "get_final_waypoints s (straight_path n) a e =
     Inr (straight_braking_window (current_velocity s) a e)"
proof -
  have "final_waypoint s (straight_path n) e (a + int k) =
      Inr (straight_braking_window (current_velocity s) a e ! k)" if "k < nat (e - a)" for k
  proof -
    have "0 \<le> a + int k" "a + int k < int n"
      using that assms by linarith+
    then show ?thesis
      using that final_waypoint_straight [OF assms(1) _ _ assms(3,4), of "a + int k"]
      by (simp add: straight_braking_window_def length_py_range nth_py_range)
  qed
  then show ?thesis
    unfolding get_final_waypoints_Inr
    by (simp add: straight_braking_window_def length_py_range)
qed

lemma loop_scenario:
  assumes "m < 300" "0 \<le> stop" "stop < 300"
  shows "loop math_atan2 quaternion_yaw (scenario (real m) stop b) =
    (if \<not> b \<and> \<bar>real m - real_of_int stop\<bar> < min_stopping_dist 5 then
       (case get_final_waypoints (scenario (real m) stop b) (straight_path 300) (int m)
               (int m + LOOKAHEAD_WPS) of
          Inl e \<Rightarrow> Inl e
        | Inr lane \<Rightarrow> Inr (scenario (real m) stop b, Some lane))
     else
       (case get_final_waypoints (scenario (real m) stop True) (straight_path 300) (int m) stop of
          Inl e \<Rightarrow> Inl e
        | Inr lane \<Rightarrow> Inr (scenario (real m) stop True, Some lane)))"
proof -
  define s where "s = scenario (real m) stop b"
  have base: "base_waypoints s = Some (straight_path 300)"
    and ps: "current_pose s = Some (on_axis (real m))"
    and tr: "traffic_waypoint s = stop"
    and br: "braking s = b"
    and v: "current_velocity s = 5"
    and upd: "s\<lparr>braking := True\<rparr> = scenario (real m) stop True"
    by (simp_all add: s_def scenario_def)
  have tw: "py_index (straight_path 300) (traffic_waypoint s) =
      Inr \<lparr>wp_pose = on_axis (real_of_int stop), linear_x = 0\<rparr>"
    using assms unfolding tr
    by (simp add: py_index_in_range length_straight_path nth_straight_path)
  have ne: "stop \<noteq> - 1" using assms(2) by simp
  show ?thesis
    unfolding s_def [symmetric]
    unfolding loop_ready [OF base ps next_on_straight_path [OF assms(1)] tw] upd
    using ne by (simp add: tr br v distance_on_axis)
qed

lemma min_stopping_dist_5: "min_stopping_dist 5 = 8.125"
  by (simp add: min_stopping_dist_def MAX_DECEL_def STOP_BUFFER_def power2_eq_square)

lemma tick_scenario_braking:
  assumes "m < 300" "0 \<le> stop" "stop < 300"
    and "b \<or> \<not> \<bar>real m - real_of_int stop\<bar> < min_stopping_dist 5"
  shows "loop math_atan2 quaternion_yaw (scenario (real m) stop b) =
     Inr (scenario (real m) stop True, Some (straight_braking_window 5 (int m) stop))"
proof -
  have "get_final_waypoints (scenario (real m) stop True) (straight_path 300) (int m) stop =
      Inr (straight_braking_window (current_velocity (scenario (real m) stop True)) (int m) stop)"
    using assms(2,3) by (intro get_final_waypoints_straight_braking) (simp_all add: scenario_def)
  moreover have "current_velocity (scenario (real m) stop True) = 5"
    by (simp add: scenario_def)
  ultimately show ?thesis
    unfolding loop_scenario [OF assms(1-3)] using assms(4) by auto
qed

lemma speeds_straight_braking_window:
  "map linear_x (straight_braking_window v a e) =
     map (\<lambda>i. spec_braking_speed v i \<bar>real_of_int i - real_of_int e\<bar>) (py_range a e)"
  by (simp add: straight_braking_window_def comp_def)

lemma speeds_scenario_B: "map linear_x (straight_braking_window 5 194 200) = [3, 0, 0, 0, 0, 0]"
  by (simp add: speeds_straight_braking_window py_range_def spec_braking_speed_def)

lemma speeds_scenario_A:
  "map linear_x (straight_braking_window 5 0 200) = [5, 4.5] @ replicate 193 3 @ replicate 5 0"
proof (rule nth_equalityI)
  show "length (map linear_x (straight_braking_window 5 0 200)) =
      length ([5, 4.5] @ replicate 193 3 @ replicate 5 (0::real))"
    by (simp add: speeds_straight_braking_window length_py_range)
next
  fix k assume "k < length (map linear_x (straight_braking_window 5 0 200))"
  then have k: "k < 200"
    by (simp add: speeds_straight_braking_window length_py_range)
  then have l: "map linear_x (straight_braking_window 5 0 200) ! k =
      spec_braking_speed 5 (int k) \<bar>real k - 200\<bar>"
    by (simp add: speeds_straight_braking_window length_py_range nth_py_range)
  consider "k = 0" | "k = 1" | "2 \<le> k" "k < 195" | "195 \<le> k" using k by linarith
  then show "map linear_x (straight_braking_window 5 0 200) ! k =
      ([5, 4.5] @ replicate 193 3 @ replicate 5 (0::real)) ! k"
  proof cases
    case 1
    then show ?thesis unfolding l by (simp add: spec_braking_speed_def)
  next
    case 2
    then show ?thesis unfolding l by (simp add: spec_braking_speed_def)
  next
    case 3
    then have "([5, 4.5] @ replicate 193 3 @ replicate 5 (0::real)) ! k = 3"
      by (simp add: nth_append nth_Cons')
    moreover have "spec_braking_speed 5 (int k) \<bar>real k - 200\<bar> = 3"
      using 3 by (simp add: spec_braking_speed_def)
    ultimately show ?thesis unfolding l by simp
  next
    case 4
    then have "([5, 4.5] @ replicate 193 3 @ replicate 5 (0::real)) ! k = 0"
      using k by (simp add: nth_append nth_Cons')
    moreover have "spec_braking_speed 5 (int k) \<bar>real k - 200\<bar> = 0"
      using 4 k by (simp add: spec_braking_speed_def)
    ultimately show ?thesis unfolding l by simp
  qed
qed

lemma get_final_waypoints_straight_cruise:
  assumes "\<not> braking s" "0 < n"
  shows "get_final_waypoints s (straight_path n) a (a + LOOKAHEAD_WPS) =
     Inr (straight_cruise_window n a)"
  unfolding get_final_waypoints_Inr
  using final_waypoint_straight_cruise [OF assms]
  by (simp add: straight_cruise_window_def length_py_range nth_py_range)

lemma tick_scenario_cruise:
  assumes "m < 300" "0 \<le> stop" "stop < 300"
    and "\<bar>real m - real_of_int stop\<bar> < min_stopping_dist 5"
  shows "loop math_atan2 quaternion_yaw (scenario (real m) stop False) =
     Inr (scenario (real m) stop False, Some (straight_cruise_window 300 (int m)))"
proof -
  have "get_final_waypoints (scenario (real m) stop False) (straight_path 300) (int m)
      (int m + LOOKAHEAD_WPS) = Inr (straight_cruise_window 300 (int m))"
    by (rule get_final_waypoints_straight_cruise) (simp_all add: scenario_def)
  then show ?thesis
    unfolding loop_scenario [OF assms(1-3)] using assms(4) by simp
qed

lemma tick_scenario_no_stop:
  assumes "m < 300"
  shows "loop math_atan2 quaternion_yaw (scenario (real m) (- 1) b) =
     Inr (scenario (real m) (- 1) False, Some (straight_cruise_window 300 (int m)))"
proof -
  define s where "s = scenario (real m) (- 1) b"
  have base: "base_waypoints s = Some (straight_path 300)"
    and ps: "current_pose s = Some (on_axis (real m))"
    and tr: "traffic_waypoint s = - 1"
    and upd: "s\<lparr>braking := False\<rparr> = scenario (real m) (- 1) False"
    by (simp_all add: s_def scenario_def)
  have tw: "py_index (straight_path 300) (traffic_waypoint s) = Inr (straight_path 300 ! 299)"
    unfolding tr by (simp add: py_index_def length_straight_path)
  have "get_final_waypoints (scenario (real m) (- 1) False) (straight_path 300) (int m)
      (int m + LOOKAHEAD_WPS) = Inr (straight_cruise_window 300 (int m))"
    by (rule get_final_waypoints_straight_cruise) (simp_all add: scenario_def)
  then show ?thesis
    unfolding s_def [symmetric]
    unfolding loop_ready [OF base ps next_on_straight_path [OF assms] tw] upd
    by (simp add: tr)
qed

subsection \<open>What a tick and a callback leave as they are\<close>

lemma loop_keeps_braking:
  assumes "braking s" "traffic_waypoint s \<noteq> - 1" "loop atan2 yaw s = Inr (s', published)"
  shows "braking s' \<and> traffic_waypoint s' = traffic_waypoint s"
  using assms
  by (auto simp: loop_def Let_def split: option.splits sum.splits if_splits)

lemma loop_clears_braking:
  assumes "traffic_waypoint s = - 1" "base_waypoints s \<noteq> None" "current_pose s \<noteq> None"
    and "loop atan2 yaw s = Inr (s', published)"
  shows "s' = s\<lparr>braking := False\<rparr> \<and> published \<noteq> None"
  using assms
  by (auto simp: loop_def Let_def split: option.splits sum.splits if_splits)

lemma loop_braking_ready:
  assumes "loop atan2 yaw s = Inr (s', published)"
    and "braking s \<longrightarrow> base_waypoints s \<noteq> None \<and> current_pose s \<noteq> None"
  shows "braking s' \<longrightarrow> base_waypoints s' \<noteq> None \<and> current_pose s' \<noteq> None"
  using assms
  by (auto simp: loop_def Let_def split: option.splits sum.splits if_splits)

lemma handle_braking_ready:
  assumes "handle atan2 yaw e s = Inr s'"
    and "braking s \<longrightarrow> base_waypoints s \<noteq> None \<and> current_pose s \<noteq> None"
  shows "braking s' \<longrightarrow> base_waypoints s' \<noteq> None \<and> current_pose s' \<noteq> None"
proof (cases e)
  case Tick
  then obtain published where "loop atan2 yaw s = Inr (s', published)"
    using assms(1) by (auto split: sum.splits)
  then show ?thesis using loop_braking_ready assms(2) by blast
qed (use assms in \<open>auto simp: current_pose_cb_def base_waypoints_cb_def traffic_waypoint_cb_def
      obstacle_waypoint_cb_def current_velocity_cb_def\<close>)

lemma run_braking_ready:
  assumes "run atan2 yaw evs s = Inr s'"
    and "braking s \<longrightarrow> base_waypoints s \<noteq> None \<and> current_pose s \<noteq> None"
  shows "braking s' \<longrightarrow> base_waypoints s' \<noteq> None \<and> current_pose s' \<noteq> None"
  using assms
proof (induction evs arbitrary: s)
  case Nil
  then show ?case by simp
next
  case (Cons e evs)
  from Cons.prems(1) obtain s1 where h: "handle atan2 yaw e s = Inr s1"
    and r: "run atan2 yaw evs s1 = Inr s'"
    by (auto split: sum.splits)
  show ?case
    using Cons.IH [OF r handle_braking_ready [OF h Cons.prems(2)]] .
qed

lemma handle_keeps_braking:
  assumes "braking s" "traffic_waypoint s \<noteq> - 1" "e \<noteq> TrafficWaypoint (- 1)"
    and "handle atan2 yaw e s = Inr s'"
  shows "braking s' \<and> traffic_waypoint s' \<noteq> - 1"
proof (cases e)
  case Tick
  then obtain published where "loop atan2 yaw s = Inr (s', published)"
    using assms(4) by (auto split: sum.splits)
  then show ?thesis using loop_keeps_braking [OF assms(1,2)] assms(2) by simp
qed (use assms in \<open>auto simp: current_pose_cb_def base_waypoints_cb_def traffic_waypoint_cb_def
      obstacle_waypoint_cb_def current_velocity_cb_def\<close>)

lemma run_keeps_braking:
  assumes "braking s" "traffic_waypoint s \<noteq> - 1" "TrafficWaypoint (- 1) \<notin> set evs"
    and "run atan2 yaw evs s = Inr s'"
  shows "braking s' \<and> traffic_waypoint s' \<noteq> - 1"
  using assms
proof (induction evs arbitrary: s)
  case Nil
  then show ?case by simp
next
  case (Cons e evs)
  from Cons.prems(4) obtain s1 where h: "handle atan2 yaw e s = Inr s1"
    and r: "run atan2 yaw evs s1 = Inr s'"
    by (auto split: sum.splits)
  have e: "e \<noteq> TrafficWaypoint (- 1)" and evs: "TrafficWaypoint (- 1) \<notin> set evs"
    using Cons.prems(3) by auto
  have "braking s1 \<and> traffic_waypoint s1 \<noteq> - 1"
    using handle_keeps_braking [OF Cons.prems(1,2) e h] .
  then show ?case using Cons.IH [OF _ _ evs r] by blast
qed

subsection \<open>The shape of a window\<close>

text \<open>
  \<open>get_final_waypoints\<close> as a function of any window: it reads \<open>waypoints[end_wp]\<close> while
  braking, so it returns when the node is not braking or \<open>end_wp\<close> is a subscript of the
  path. A tick only calls it that way.
\<close>

lemma get_final_waypoints_shape:
  assumes "wpts \<noteq> []" and "start_wp \<le> end_wp"
    and "\<not> braking s \<or> (- int (length wpts) \<le> end_wp \<and> end_wp < int (length wpts))"
  shows "\<exists>ws. get_final_waypoints s wpts start_wp end_wp = Inr ws \<and>
           int (length ws) = end_wp - start_wp \<and>
           (\<forall>k < length ws.
              position (wp_pose (ws ! k)) =
                position (wp_pose (wpts ! nat ((start_wp + int k) mod int (length wpts)))) \<and>
              orientation (wp_pose (ws ! k)) =
                orientation (wp_pose (wpts ! nat ((start_wp + int k) mod int (length wpts)))))"
proof -
  obtain ws where ws: "get_final_waypoints s wpts start_wp end_wp = Inr ws"
    using get_final_waypoints_total [OF assms(1), of s end_wp start_wp] assms(3) by blast
  have len: "length ws = nat (end_wp - start_wp)"
    using ws unfolding get_final_waypoints_Inr by blast
  have "wp_pose (ws ! k) = wp_pose (wpts ! nat ((start_wp + int k) mod int (length wpts)))"
    if "k < length ws" for k
  proof -
    have "final_waypoint s wpts end_wp (start_wp + int k) = Inr (ws ! k)"
      using ws that len unfolding get_final_waypoints_Inr by simp
    then show ?thesis by (rule final_waypoint_pose)
  qed
  then show ?thesis using ws len assms(2) by auto
qed

lemma get_final_waypoints_end_out_of_range:
  "straight_path 1 \<noteq> [] \<and> (0::int) \<le> 1 \<and>
   get_final_waypoints (init_state\<lparr>braking := True\<rparr>) (straight_path 1) 0 1 = Inl IndexError"
  by (simp add: straight_path_def get_final_waypoints_def py_range_def final_waypoint_def
        py_index_def init_state_def Let_def)

section \<open>The claims\<close>

subsection \<open>C1: the braking decision of a tick\<close>

text \<open>
  C1, as amended. On every tick with the path and a pose received, the stop index not
  \<open>-1\<close> and a valid subscript of the path, and the node cruising (\<open>braking\<close> false):
  with \<open>min_stopping_dist v = v^2 / (2 * 4.0) + 5.0\<close>, if the distance from the vehicle to
  the stop waypoint is below \<open>min_stopping_dist\<close> of the current velocity, the node stays
  cruising and publishes the cruise window \<open>[next_wp, next_wp + 200)\<close>; otherwise it
  starts braking and publishes the braking window \<open>[next_wp, traffic_wp)\<close>.
\<close>

theorem braking_decision:
  assumes "base_waypoints s = Some wpts" and "current_pose s = Some ps"
    and "traffic_waypoint s \<noteq> - 1" and "py_index wpts (traffic_waypoint s) = Inr tw"
    and "\<not> braking s"
  shows "min_stopping_dist (current_velocity s) = (current_velocity s)\<^sup>2 / (2 * 4) + 5 \<and>
    (\<exists>next_wp lane. get_next_waypoint atan2 yaw ps wpts = Inr next_wp \<and>
       (if distance (position ps) (position (wp_pose tw)) < min_stopping_dist (current_velocity s)
        then get_final_waypoints s wpts (int next_wp) (int next_wp + LOOKAHEAD_WPS) = Inr lane \<and>
             loop atan2 yaw s = Inr (s, Some lane)
        else get_final_waypoints (s\<lparr>braking := True\<rparr>) wpts (int next_wp) (traffic_waypoint s)
               = Inr lane \<and>
             loop atan2 yaw s = Inr (s\<lparr>braking := True\<rparr>, Some lane)))"
proof -
  have valid: "- int (length wpts) \<le> traffic_waypoint s \<and> traffic_waypoint s < int (length wpts)"
    using assms(4) py_index_Inr_iff [of wpts "traffic_waypoint s"] by blast
  then have ne: "wpts \<noteq> []" by auto
  obtain next_wp where nw: "get_next_waypoint atan2 yaw ps wpts = Inr next_wp"
    using get_next_waypoint_eq [OF ne] by blast
  note l = loop_ready [OF assms(1,2) nw assms(4)]
  have m: "min_stopping_dist (current_velocity s) = (current_velocity s)\<^sup>2 / (2 * 4) + 5"
    by (simp add: min_stopping_dist_def MAX_DECEL_def STOP_BUFFER_def)
  show ?thesis
  proof (cases "distance (position ps) (position (wp_pose tw)) < min_stopping_dist (current_velocity s)")
    case True
    obtain lane where
      lane: "get_final_waypoints s wpts (int next_wp) (int next_wp + LOOKAHEAD_WPS) = Inr lane"
      using get_final_waypoints_total [OF ne, of s] assms(5) by blast
    have "loop atan2 yaw s = Inr (s, Some lane)"
      unfolding l using assms(3,5) True lane by simp
    then show ?thesis using m nw lane True by auto
  next
    case False
    obtain lane where
      lane: "get_final_waypoints (s\<lparr>braking := True\<rparr>) wpts (int next_wp) (traffic_waypoint s)
        = Inr lane"
      using get_final_waypoints_total [OF ne, of "s\<lparr>braking := True\<rparr>" "traffic_waypoint s"] valid
      by blast
    have "loop atan2 yaw s = Inr (s\<lparr>braking := True\<rparr>, Some lane)"
      unfolding l using assms(3) False lane by simp
    then show ?thesis using m nw lane False by auto
  qed
qed

text \<open>
  Scenario B: at \<open>x = 194\<close> the stop waypoint is 6 m away, less than 8.125, and the
  tick leaves the node cruising.
\<close>

theorem braking_decision_witness:
  "base_waypoints scenario_B = Some (straight_path 300) \<and>
   current_pose scenario_B = Some (on_axis 194) \<and>
   traffic_waypoint scenario_B \<noteq> - 1 \<and>
   py_index (straight_path 300) (traffic_waypoint scenario_B)
     = Inr \<lparr>wp_pose = on_axis 200, linear_x = 0\<rparr> \<and>
   \<not> braking scenario_B \<and>
   min_stopping_dist (current_velocity scenario_B) = 8.125 \<and>
   (\<exists>lane. loop math_atan2 quaternion_yaw scenario_B = Inr (scenario_B, Some lane))"
proof -
  have a: "base_waypoints scenario_B = Some (straight_path 300)"
    and b: "current_pose scenario_B = Some (on_axis 194)"
    and c: "traffic_waypoint scenario_B \<noteq> - 1"
    and e: "\<not> braking scenario_B"
    and v: "current_velocity scenario_B = 5"
    by (simp_all add: scenario_B_def scenario_def)
  have d: "py_index (straight_path 300) (traffic_waypoint scenario_B)
      = Inr \<lparr>wp_pose = on_axis 200, linear_x = 0\<rparr>"
    by (simp add: scenario_B_def scenario_def py_index_in_range length_straight_path
          nth_straight_path)
  have near: "distance (position (on_axis 194))
      (position (wp_pose \<lparr>wp_pose = on_axis 200, linear_x = 0\<rparr>))
        < min_stopping_dist (current_velocity scenario_B)"
    unfolding v min_stopping_dist_5 by (simp add: distance_on_axis)
  have "min_stopping_dist (current_velocity scenario_B) = 8.125"
    using braking_decision [OF a b c d e, of math_atan2 quaternion_yaw] v by simp
  moreover have "\<exists>lane. loop math_atan2 quaternion_yaw scenario_B = Inr (scenario_B, Some lane)"
    using braking_decision [OF a b c d e, of math_atan2 quaternion_yaw] near by auto
  ultimately show ?thesis using a b c d e by simp
qed

text \<open>
  C1 as stated has the comparison the other way round. At \<open>x = 194\<close> the distance 6 is
  below 8.125 and the node stays cruising, where the claim has it brake; at \<open>x = 100\<close> the
  distance 100 is at least 8.125 and the node brakes, where the claim has it cruise.
\<close>

theorem braking_decision_counterexample:
  "traffic_waypoint scenario_B \<noteq> - 1 \<and> \<not> braking scenario_B \<and>
   distance (position (on_axis 194)) (position (wp_pose (straight_path 300 ! 200)))
     < min_stopping_dist (current_velocity scenario_B) \<and>
   map_option braking (tick_state (loop math_atan2 quaternion_yaw scenario_B)) = Some False \<and>
   traffic_waypoint (scenario 100 200 False) \<noteq> - 1 \<and> \<not> braking (scenario 100 200 False) \<and>
   distance (position (on_axis 100)) (position (wp_pose (straight_path 300 ! 200)))
     \<ge> min_stopping_dist (current_velocity (scenario 100 200 False)) \<and>
   map_option braking (tick_state (loop math_atan2 quaternion_yaw (scenario 100 200 False)))
     = Some True"
proof -
  have "loop math_atan2 quaternion_yaw (scenario (real 194) 200 False) =
      Inr (scenario (real 194) 200 False, Some (straight_cruise_window 300 (int 194)))"
    by (rule tick_scenario_cruise) (simp_all add: min_stopping_dist_5)
  then have 1: "map_option braking (tick_state (loop math_atan2 quaternion_yaw scenario_B))
      = Some False"
    by (simp add: scenario_B_def tick_state_def scenario_def)
  have "loop math_atan2 quaternion_yaw (scenario (real 100) 200 False) =
      Inr (scenario (real 100) 200 True, Some (straight_braking_window 5 (int 100) 200))"
    by (rule tick_scenario_braking) (simp_all add: min_stopping_dist_5)
  then have 2: "map_option braking
      (tick_state (loop math_atan2 quaternion_yaw (scenario 100 200 False))) = Some True"
    by (simp add: tick_state_def scenario_def)
  have v: "current_velocity scenario_B = 5" "current_velocity (scenario 100 200 False) = 5"
    by (simp_all add: scenario_B_def scenario_def)
  show ?thesis
    unfolding v min_stopping_dist_5 using 1 2
    by (simp add: nth_straight_path distance_on_axis scenario_B_def scenario_def)
qed

subsection \<open>C2: braking is sticky\<close>

text \<open>
  C2. Let the node have reached a braking state \<open>s\<close> from its initial state. Whatever
  messages and ticks follow, as long as none of the messages sets the stop index to \<open>-1\<close>
  (and the stop index of \<open>s\<close> is not \<open>-1\<close>), the node is still braking after them: poses and
  velocities may change as they like. And when the stop index of \<open>s\<close> is \<open>-1\<close>, the tick
  publishes a window and leaves the node cruising.
\<close>

theorem sticky_braking:
  assumes "run atan2 yaw evs init_state = Inr s" and "braking s"
  shows "(traffic_waypoint s \<noteq> - 1 \<and> TrafficWaypoint (- 1) \<notin> set evs' \<and>
            run atan2 yaw evs' s = Inr s'
          \<longrightarrow> braking s') \<and>
         (traffic_waypoint s = - 1 \<and> loop atan2 yaw s = Inr (s'', published)
          \<longrightarrow> \<not> braking s'' \<and> published \<noteq> None)"
proof -
  have "braking s \<longrightarrow> base_waypoints s \<noteq> None \<and> current_pose s \<noteq> None"
    by (rule run_braking_ready [OF assms(1)]) (simp add: init_state_def)
  then have ready: "base_waypoints s \<noteq> None" "current_pose s \<noteq> None"
    using assms(2) by simp_all
  have "braking s'"
    if "traffic_waypoint s \<noteq> - 1" "TrafficWaypoint (- 1) \<notin> set evs'"
      "run atan2 yaw evs' s = Inr s'"
    using run_keeps_braking [OF assms(2) that] by blast
  moreover have "\<not> braking s'' \<and> published \<noteq> None"
    if "traffic_waypoint s = - 1" "loop atan2 yaw s = Inr (s'', published)"
    using loop_clears_braking [OF that(1) ready that(2)] by simp
  ultimately show ?thesis by blast
qed

text \<open>
  The node starts braking 100 m before the stop waypoint and is still braking after the
  vehicle has moved back to 150 m before it; a stop index \<open>-1\<close> makes the next tick cruise.
\<close>

theorem sticky_braking_witness:
  "run math_atan2 quaternion_yaw
     [BaseWaypoints (straight_path 300), CurrentPose (on_axis 100), CurrentVelocity 5,
      TrafficWaypoint 200, Tick] init_state = Inr (scenario 100 200 True) \<and>
   braking (scenario 100 200 True) \<and> traffic_waypoint (scenario 100 200 True) \<noteq> - 1 \<and>
   TrafficWaypoint (- 1) \<notin> set [CurrentPose (on_axis 50), Tick] \<and>
   run math_atan2 quaternion_yaw [CurrentPose (on_axis 50), Tick] (scenario 100 200 True)
     = Inr (scenario 50 200 True) \<and>
   braking (scenario 50 200 True) \<and>
   run math_atan2 quaternion_yaw
     [BaseWaypoints (straight_path 300), CurrentPose (on_axis 100), CurrentVelocity 5,
      TrafficWaypoint 200, Tick, TrafficWaypoint (- 1)] init_state
     = Inr (scenario 100 (- 1) True) \<and>
   braking (scenario 100 (- 1) True) \<and> traffic_waypoint (scenario 100 (- 1) True) = - 1 \<and>
   loop math_atan2 quaternion_yaw (scenario 100 (- 1) True)
     = Inr (scenario 100 (- 1) False, Some (straight_cruise_window 300 100)) \<and>
   \<not> braking (scenario 100 (- 1) False)"
proof -
  have t1: "loop math_atan2 quaternion_yaw (scenario (real 100) 200 False) =
      Inr (scenario (real 100) 200 True, Some (straight_braking_window 5 (int 100) 200))"
    by (rule tick_scenario_braking) (simp_all add: min_stopping_dist_5)
  have cb: "traffic_waypoint_cb 200 (current_velocity_cb 5 (current_pose_cb (on_axis 100)
      (base_waypoints_cb (straight_path 300) init_state))) = scenario 100 200 False"
    by (simp add: traffic_waypoint_cb_def current_velocity_cb_def current_pose_cb_def
          base_waypoints_cb_def init_state_def scenario_def)
  have r1: "run math_atan2 quaternion_yaw
     [BaseWaypoints (straight_path 300), CurrentPose (on_axis 100), CurrentVelocity 5,
      TrafficWaypoint 200, Tick] init_state = Inr (scenario 100 200 True)"
    using cb t1 by simp
  have t2: "loop math_atan2 quaternion_yaw (scenario (real 50) 200 True) =
      Inr (scenario (real 50) 200 True, Some (straight_braking_window 5 (int 50) 200))"
    by (rule tick_scenario_braking) simp_all
  have "current_pose_cb (on_axis 50) (scenario 100 200 True) = scenario 50 200 True"
    by (simp add: current_pose_cb_def scenario_def)
  then have r2: "run math_atan2 quaternion_yaw [CurrentPose (on_axis 50), Tick]
      (scenario 100 200 True) = Inr (scenario 50 200 True)"
    using t2 by simp
  have "traffic_waypoint_cb (- 1) (scenario 100 200 True) = scenario 100 (- 1) True"
    by (simp add: traffic_waypoint_cb_def scenario_def)
  then have r3: "run math_atan2 quaternion_yaw
     [BaseWaypoints (straight_path 300), CurrentPose (on_axis 100), CurrentVelocity 5,
      TrafficWaypoint 200, Tick, TrafficWaypoint (- 1)] init_state
     = Inr (scenario 100 (- 1) True)"
    using cb t1 by simp
  have "loop math_atan2 quaternion_yaw (scenario (real 100) (- 1) True) =
      Inr (scenario (real 100) (- 1) False, Some (straight_cruise_window 300 (int 100)))"
    by (rule tick_scenario_no_stop) simp
  then have l3: "loop math_atan2 quaternion_yaw (scenario 100 (- 1) True)
     = Inr (scenario 100 (- 1) False, Some (straight_cruise_window 300 100))"
    by simp
  have b: "braking (scenario 100 200 True)"
    and tr: "traffic_waypoint (scenario 100 200 True) \<noteq> - 1"
    and b3: "braking (scenario 100 (- 1) True)"
    and tr3: "traffic_waypoint (scenario 100 (- 1) True) = - 1"
    by (simp_all add: scenario_def)
  have ev: "TrafficWaypoint (- 1) \<notin> set [CurrentPose (on_axis 50), Tick]"
    by simp
  have stays: "braking (scenario 50 200 True)"
    using sticky_braking [OF r1 b, of "[CurrentPose (on_axis 50), Tick]" "scenario 50 200 True"]
      tr ev r2 by blast
  have clears: "\<not> braking (scenario 100 (- 1) False)"
    using sticky_braking [OF r3 b3, of _ _ "scenario 100 (- 1) False"
        "Some (straight_cruise_window 300 100)"] tr3 l3 by blast
  show ?thesis using r1 b tr ev r2 stays r3 b3 tr3 l3 clears by blast
qed

subsection \<open>C3: the braking speed rule\<close>

text \<open>
  C3, as amended. On a tick in the braking state with window \<open>[next_wp, stop_wp)\<close>, the
  waypoint at offset \<open>k\<close> of the window is a copy of \<open>path[(next_wp + k) mod L]\<close>, and with
  \<open>dist\<close> its distance to the stop waypoint its speed is: 3.0 if \<open>dist > 5.0\<close> and the
  velocity is below 3.0; 0 if \<open>dist \<le> 5.0\<close>; otherwise \<open>velocity - i * 0.5\<close> when
  \<open>velocity - i > 3.0\<close> and 3.0 when not, where \<open>i = next_wp + k\<close> is the index the loop
  runs over, not the offset \<open>k\<close>. In the geometry of Scenario B (braking, vehicle at
  \<open>x = 194\<close>, velocity 5.0, stop index 200) the waypoint at offset 0 gets speed 3.0.
\<close>

theorem braking_speed_rule:
  assumes "braking s" and "py_index wpts stop_wp = Inr stop"
    and "k < nat (stop_wp - next_wp)"
  shows "\<exists>ws. get_final_waypoints s wpts next_wp stop_wp = Inr ws \<and>
           int (length ws) = stop_wp - next_wp \<and>
           wp_pose (ws ! k) = wp_pose (wpts ! nat ((next_wp + int k) mod int (length wpts))) \<and>
           linear_x (ws ! k) =
             spec_braking_speed (current_velocity s) (next_wp + int k)
               (distance (position (wp_pose (ws ! k))) (position (wp_pose stop)))"
proof -
  have valid: "- int (length wpts) \<le> stop_wp \<and> stop_wp < int (length wpts)"
    using assms(2) py_index_Inr_iff [of wpts stop_wp] by blast
  then have ne: "wpts \<noteq> []" by auto
  obtain ws where ws: "get_final_waypoints s wpts next_wp stop_wp = Inr ws"
    using get_final_waypoints_total [OF ne, of s stop_wp next_wp] valid by blast
  have len: "length ws = nat (stop_wp - next_wp)"
    using ws unfolding get_final_waypoints_Inr by blast
  have fw: "final_waypoint s wpts stop_wp (next_wp + int k) = Inr (ws ! k)"
    using ws assms(3) unfolding get_final_waypoints_Inr by blast
  have "ws ! k = \<lparr>wp_pose = wp_pose (wpts ! nat ((next_wp + int k) mod int (length wpts))),
          linear_x = spec_braking_speed (current_velocity s) (next_wp + int k)
            (distance (position (wp_pose (wpts ! nat ((next_wp + int k) mod int (length wpts)))))
               (position (wp_pose stop)))\<rparr>"
    using fw final_waypoint_braking [OF ne assms(1,2), of "next_wp + int k"] by simp
  then have "wp_pose (ws ! k) = wp_pose (wpts ! nat ((next_wp + int k) mod int (length wpts))) \<and>
      linear_x (ws ! k) =
        spec_braking_speed (current_velocity s) (next_wp + int k)
          (distance (position (wp_pose (ws ! k))) (position (wp_pose stop)))"
    by simp
  then show ?thesis using ws len assms(3) by auto
qed

text \<open>
  The braking window of Scenario B: six waypoints, the first one at \<open>x = 194\<close> with
  speed 3.0.
\<close>

theorem braking_speed_rule_witness:
  "braking (scenario 194 200 True) \<and>
   py_index (straight_path 300) 200 = Inr \<lparr>wp_pose = on_axis 200, linear_x = 0\<rparr> \<and>
   (0::nat) < nat (200 - 194) \<and>
   (\<exists>ws. get_final_waypoints (scenario 194 200 True) (straight_path 300) 194 200 = Inr ws \<and>
      length ws = 6 \<and> wp_pose (ws ! 0) = on_axis 194 \<and> linear_x (ws ! 0) = 3)"
proof -
  have b: "braking (scenario 194 200 True)"
    by (simp add: scenario_def)
  have st: "py_index (straight_path 300) 200 = Inr \<lparr>wp_pose = on_axis 200, linear_x = 0\<rparr>"
    by (simp add: py_index_in_range length_straight_path nth_straight_path)
  have k: "(0::nat) < nat (200 - 194)" by simp
  obtain ws where ws: "get_final_waypoints (scenario 194 200 True) (straight_path 300) 194 200 = Inr ws"
    "int (length ws) = 200 - 194"
    "wp_pose (ws ! 0) =
       wp_pose (straight_path 300 ! nat ((194 + int 0) mod int (length (straight_path 300))))"
    "linear_x (ws ! 0) =
       spec_braking_speed (current_velocity (scenario 194 200 True)) (194 + int 0)
         (distance (position (wp_pose (ws ! 0)))
            (position (wp_pose \<lparr>wp_pose = on_axis 200, linear_x = 0\<rparr>)))"
    using braking_speed_rule [OF b st k] by blast
  have p: "wp_pose (ws ! 0) = on_axis 194"
    using ws(3) by (simp add: length_straight_path nth_straight_path)
  have "linear_x (ws ! 0) = 3"
    using ws(4) unfolding p
    by (simp add: distance_on_axis scenario_def spec_braking_speed_def)
  then show ?thesis using b st ws(1,2) p by auto
qed

text \<open>
  C3 as stated counts with the offset. In the braking tick of Scenario B the published
  speeds are 3, 0, 0, 0, 0, 0: the first is 3.0 because \<open>5.0 - 194\<close> is not above 3.0,
  where the rule with the offset 0 gives 5.0.
\<close>

theorem braking_speed_offset_counterexample:
  "braking (scenario 194 200 True) \<and>
   map_option (map linear_x) (tick_lane (loop math_atan2 quaternion_yaw (scenario 194 200 True)))
     = Some [3, 0, 0, 0, 0, 0] \<and>
   spec_braking_speed 5 0 6 = 5"
proof -
  have "loop math_atan2 quaternion_yaw (scenario (real 194) 200 True) =
      Inr (scenario (real 194) 200 True, Some (straight_braking_window 5 (int 194) 200))"
    by (rule tick_scenario_braking) simp_all
  then show ?thesis
    by (simp add: tick_lane_def speeds_scenario_B scenario_def spec_braking_speed_def)
qed

subsection \<open>C4: Scenario A\<close>

text \<open>
  C4, as amended. In Scenario A (300 waypoints along the x-axis at 1 m spacing, vehicle
  at \<open>x = 0\<close> with velocity 5.0, stop index 200) \<open>min_stopping_dist\<close> is 8.125 and the
  distance to the stop waypoint is 200, which is not below it: the node starts braking, and
  the published window has exactly 200 waypoints, with speeds 5.0 and 4.5 for the first
  two, 3.0 for the next 193 and 0 for the last five.
\<close>

theorem scenario_A_brakes:
  "min_stopping_dist (current_velocity scenario_A) = 8.125 \<and>
   distance (position (on_axis 0)) (position (wp_pose (straight_path 300 ! 200))) = 200 \<and>
   loop math_atan2 quaternion_yaw scenario_A =
     Inr (scenario_A\<lparr>braking := True\<rparr>, Some (straight_braking_window 5 0 200)) \<and>
   length (straight_braking_window 5 0 200) = 200 \<and>
   map linear_x (straight_braking_window 5 0 200) = [5, 4.5] @ replicate 193 3 @ replicate 5 0"
proof -
  have "loop math_atan2 quaternion_yaw (scenario (real 0) 200 False) =
      Inr (scenario (real 0) 200 True, Some (straight_braking_window 5 (int 0) 200))"
    by (rule tick_scenario_braking) (simp_all add: min_stopping_dist_5)
  then have "loop math_atan2 quaternion_yaw scenario_A =
      Inr (scenario_A\<lparr>braking := True\<rparr>, Some (straight_braking_window 5 0 200))"
    by (simp add: scenario_A_def scenario_def)
  moreover have "min_stopping_dist (current_velocity scenario_A) = 8.125"
    using min_stopping_dist_5 by (simp add: scenario_A_def scenario_def)
  moreover have "distance (position (on_axis 0)) (position (wp_pose (straight_path 300 ! 200))) = 200"
    by (simp add: nth_straight_path distance_on_axis)
  moreover have "length (straight_braking_window 5 0 200) = 200"
    by (simp add: straight_braking_window_def length_py_range)
  ultimately show ?thesis using speeds_scenario_A by simp
qed

text \<open>
  C4 as stated fails: after the tick of Scenario A the node is braking, and the speeds
  of the window are not 200 times 15.0.
\<close>

theorem scenario_A_cruise_counterexample:
  "map_option braking (tick_state (loop math_atan2 quaternion_yaw scenario_A)) = Some True \<and>
   map_option (map linear_x) (tick_lane (loop math_atan2 quaternion_yaw scenario_A))
     \<noteq> Some (replicate 200 15)"
proof -
  have "loop math_atan2 quaternion_yaw (scenario (real 0) 200 False) =
      Inr (scenario (real 0) 200 True, Some (straight_braking_window 5 (int 0) 200))"
    by (rule tick_scenario_braking) (simp_all add: min_stopping_dist_5)
  then have l: "loop math_atan2 quaternion_yaw scenario_A =
      Inr (scenario 0 200 True, Some (straight_braking_window 5 0 200))"
    by (simp add: scenario_A_def)
  have "([5, 4.5] @ replicate 193 3 @ replicate 5 (0::real)) ! 0 \<noteq> replicate 200 15 ! 0"
    by simp
  then have "[5, 4.5] @ replicate 193 3 @ replicate 5 (0::real) \<noteq> replicate 200 15"
    by metis
  then show ?thesis
    unfolding l by (simp add: tick_state_def tick_lane_def speeds_scenario_A scenario_def)
qed

subsection \<open>C5: the shape of the window\<close>

text \<open>
  C5. Every window that a tick requests has the shape of the claim. With the path and a pose
  received and the stop index a subscript of the path (line 53 has read it), the tick
  raises nothing and publishes what \<open>get_final_waypoints\<close> returns for the window
  \<open>[start, end)\<close>, where \<open>start\<close> is the next waypoint and \<open>end\<close> is \<open>start + 200\<close> when
  cruising and the stop index when braking; and whenever \<open>end \<ge> start\<close> the window has
  exactly \<open>end - start\<close> waypoints, in ascending order of \<open>i\<close>, the one at offset \<open>k\<close>
  with the position and the orientation of \<open>path[(start + k) mod L]\<close>.
\<close>

theorem window_shape_on_ticks:
  assumes "base_waypoints s = Some wpts" and "current_pose s = Some ps"
    and "py_index wpts (traffic_waypoint s) = Inr tw"
  shows "\<exists>next_wp s' lane.
    get_next_waypoint atan2 yaw ps wpts = Inr next_wp \<and>
    loop atan2 yaw s = Inr (s', Some lane) \<and>
    (let start_wp = int next_wp;
         end_wp = (if braking s' then traffic_waypoint s else int next_wp + LOOKAHEAD_WPS)
     in get_final_waypoints s' wpts start_wp end_wp = Inr lane \<and>
        (start_wp \<le> end_wp \<longrightarrow>
           int (length lane) = end_wp - start_wp \<and>
           (\<forall>k < length lane.
              position (wp_pose (lane ! k)) =
                position (wp_pose (wpts ! nat ((start_wp + int k) mod int (length wpts)))) \<and>
              orientation (wp_pose (lane ! k)) =
                orientation (wp_pose (wpts ! nat ((start_wp + int k) mod int (length wpts)))))))"
proof -
  have valid: "- int (length wpts) \<le> traffic_waypoint s \<and> traffic_waypoint s < int (length wpts)"
    using assms(3) py_index_Inr_iff [of wpts "traffic_waypoint s"] by blast
  then have ne: "wpts \<noteq> []" by auto
  obtain next_wp where nw: "get_next_waypoint atan2 yaw ps wpts = Inr next_wp"
    using get_next_waypoint_eq [OF ne] by blast
  note l = loop_ready [OF assms(1,2) nw assms(3)]
  define cruise where "cruise \<longleftrightarrow> traffic_waypoint s = - 1 \<or>
    (\<not> braking s \<and>
     distance (position ps) (position (wp_pose tw)) < min_stopping_dist (current_velocity s))"
  define s' where "s' = (if traffic_waypoint s = - 1 then s\<lparr>braking := False\<rparr>
    else if cruise then s else s\<lparr>braking := True\<rparr>)"
  define end_wp where
    "end_wp = (if braking s' then traffic_waypoint s else int next_wp + LOOKAHEAD_WPS)"
  have br: "braking s' \<longleftrightarrow> \<not> cruise"
    by (auto simp: s'_def cruise_def)
  have ok: "\<not> braking s' \<or> (- int (length wpts) \<le> end_wp \<and> end_wp < int (length wpts))"
    using valid by (simp add: end_wp_def)
  obtain lane where lane: "get_final_waypoints s' wpts (int next_wp) end_wp = Inr lane"
    using get_final_waypoints_total [OF ne, of s' end_wp "int next_wp"] ok by blast
  have tick: "loop atan2 yaw s = Inr (s', Some lane)"
  proof (cases cruise)
    case True
    then have "end_wp = int next_wp + LOOKAHEAD_WPS"
      using br by (simp add: end_wp_def)
    then show ?thesis
      unfolding l using lane True by (auto simp: s'_def cruise_def)
  next
    case False
    then have "end_wp = traffic_waypoint s"
      using br by (simp add: end_wp_def)
    then show ?thesis
      unfolding l using lane False by (auto simp: s'_def cruise_def)
  qed
  have shape: "int (length lane) = end_wp - int next_wp \<and>
      (\<forall>k < length lane.
          position (wp_pose (lane ! k)) =
            position (wp_pose (wpts ! nat ((int next_wp + int k) mod int (length wpts)))) \<and>
          orientation (wp_pose (lane ! k)) =
            orientation (wp_pose (wpts ! nat ((int next_wp + int k) mod int (length wpts)))))"
    if "int next_wp \<le> end_wp"
    using get_final_waypoints_shape [OF ne that ok] lane by auto
  show ?thesis
    using nw tick lane shape unfolding end_wp_def Let_def by blast
qed

text \<open>
  The cruise tick of Scenario B: the window \<open>[194, 394)\<close> of the path of 300 waypoints
  wraps around, its waypoint at offset 106 is the first waypoint of the path.
\<close>

theorem window_shape_on_ticks_witness:
  "base_waypoints scenario_B = Some (straight_path 300) \<and>
   current_pose scenario_B = Some (on_axis 194) \<and>
   py_index (straight_path 300) (traffic_waypoint scenario_B)
     = Inr \<lparr>wp_pose = on_axis 200, linear_x = 0\<rparr> \<and>
   (\<exists>lane. loop math_atan2 quaternion_yaw scenario_B = Inr (scenario_B, Some lane) \<and>
      length lane = 200 \<and>
      position (wp_pose (lane ! 0)) = position (on_axis 194) \<and>
      position (wp_pose (lane ! 106)) = position (on_axis 0))"
proof -
  have a: "base_waypoints scenario_B = Some (straight_path 300)"
    and b: "current_pose scenario_B = Some (on_axis 194)"
    and tr: "traffic_waypoint scenario_B = 200"
    by (simp_all add: scenario_B_def scenario_def)
  have c: "py_index (straight_path 300) (traffic_waypoint scenario_B)
      = Inr \<lparr>wp_pose = on_axis 200, linear_x = 0\<rparr>"
    unfolding tr by (simp add: py_index_in_range length_straight_path nth_straight_path)
  have n: "get_next_waypoint math_atan2 quaternion_yaw (on_axis 194) (straight_path 300) = Inr 194"
    using next_on_straight_path [of 194 300] by simp
  have "loop math_atan2 quaternion_yaw (scenario (real 194) 200 False) =
      Inr (scenario (real 194) 200 False, Some (straight_cruise_window 300 (int 194)))"
    by (rule tick_scenario_cruise) (simp_all add: min_stopping_dist_5)
  then have t: "loop math_atan2 quaternion_yaw scenario_B =
      Inr (scenario_B, Some (straight_cruise_window 300 194))"
    by (simp add: scenario_B_def)
  have nb: "\<not> braking scenario_B"
    by (simp add: scenario_B_def scenario_def)
  obtain next_wp s' lane where
    w: "get_next_waypoint math_atan2 quaternion_yaw (on_axis 194) (straight_path 300) = Inr next_wp"
      "loop math_atan2 quaternion_yaw scenario_B = Inr (s', Some lane)"
      "let start_wp = int next_wp;
           end_wp = (if braking s' then traffic_waypoint scenario_B
                     else int next_wp + LOOKAHEAD_WPS)
       in get_final_waypoints s' (straight_path 300) start_wp end_wp = Inr lane \<and>
          (start_wp \<le> end_wp \<longrightarrow>
             int (length lane) = end_wp - start_wp \<and>
             (\<forall>k < length lane.
                position (wp_pose (lane ! k)) =
                  position (wp_pose (straight_path 300 !
                    nat ((start_wp + int k) mod int (length (straight_path 300))))) \<and>
                orientation (wp_pose (lane ! k)) =
                  orientation (wp_pose (straight_path 300 !
                    nat ((start_wp + int k) mod int (length (straight_path 300)))))))"
    using window_shape_on_ticks [OF a b c, of math_atan2 quaternion_yaw] by blast
  have nx: "next_wp = 194" using w(1) n by simp
  have s': "s' = scenario_B" using w(2) t by simp
  have len: "int (length lane) = 200"
    and pos: "\<forall>k < length lane.
        position (wp_pose (lane ! k)) =
          position (wp_pose (straight_path 300 ! nat ((194 + int k) mod 300)))"
    using w(3) unfolding nx s'
    by (simp_all add: Let_def nb LOOKAHEAD_WPS_def length_straight_path)
  have l: "length lane = 200" using len by simp
  have p0: "position (wp_pose (lane ! 0)) = position (on_axis 194)"
    using pos l by (simp add: nth_straight_path)
  have "(106::nat) < length lane" using l by simp
  then have "position (wp_pose (lane ! 106)) =
      position (wp_pose (straight_path 300 ! nat ((194 + int 106) mod 300)))"
    using pos by blast
  then have p1: "position (wp_pose (lane ! 106)) = position (on_axis 0)"
    by (simp add: nth_straight_path)
  have "loop math_atan2 quaternion_yaw scenario_B = Inr (scenario_B, Some lane)"
    using w(2) s' by simp
  then show ?thesis using a b c l p0 p1 by blast
qed

subsection \<open>C6: the closest waypoint\<close>

text \<open>
  C6. For every non-empty path, \<open>get_closest_waypoint\<close> returns an index of the path
  whose distance to the pose is at most that of every waypoint of the path, and every index
  with the same distance is at or after it: of the closest waypoints it is the first.
\<close>

theorem closest_waypoint_first_minimum:
  assumes "wpts \<noteq> []"
  shows "get_closest_waypoint ps wpts < length wpts \<and>
    (\<forall>j < length wpts.
        distance (position ps) (position (wp_pose (wpts ! get_closest_waypoint ps wpts)))
          \<le> distance (position ps) (position (wp_pose (wpts ! j))) \<and>
        (distance (position ps) (position (wp_pose (wpts ! j)))
          = distance (position ps) (position (wp_pose (wpts ! get_closest_waypoint ps wpts)))
         \<longrightarrow> get_closest_waypoint ps wpts \<le> j))"
proof -
  note r = get_closest_waypoint_result [OF assms, of ps]
  have "get_closest_waypoint ps wpts \<le> j"
    if "distance (position ps) (position (wp_pose (wpts ! j)))
          = distance (position ps) (position (wp_pose (wpts ! get_closest_waypoint ps wpts)))"
    for j
  proof (rule ccontr)
    assume "\<not> get_closest_waypoint ps wpts \<le> j"
    then have "j < get_closest_waypoint ps wpts" by simp
    then show False using r that by auto
  qed
  then show ?thesis using r by blast
qed

text \<open>
  Two waypoints at distance 1 and one at distance 3: the scan returns the first.
\<close>

theorem closest_waypoint_first_minimum_witness:
  "[\<lparr>wp_pose = on_axis 1, linear_x = 0\<rparr>, \<lparr>wp_pose = on_axis (- 1), linear_x = 0\<rparr>,
    \<lparr>wp_pose = on_axis 3, linear_x = 0\<rparr>] \<noteq> [] \<and>
   distance (position (on_axis 0)) (position (on_axis 1))
     = distance (position (on_axis 0)) (position (on_axis (- 1))) \<and>
   get_closest_waypoint (on_axis 0)
     [\<lparr>wp_pose = on_axis 1, linear_x = 0\<rparr>, \<lparr>wp_pose = on_axis (- 1), linear_x = 0\<rparr>,
      \<lparr>wp_pose = on_axis 3, linear_x = 0\<rparr>] = 0"
proof -
  define W where "W = [\<lparr>wp_pose = on_axis 1, linear_x = 0\<rparr>,
      \<lparr>wp_pose = on_axis (- 1), linear_x = 0\<rparr>, \<lparr>wp_pose = on_axis 3, linear_x = 0\<rparr>]"
  define c where "c = get_closest_waypoint (on_axis 0) W"
  have len: "length W = 3"
    and n0: "wp_pose (W ! 0) = on_axis 1"
    and n1: "wp_pose (W ! Suc 0) = on_axis (- 1)"
    and n2: "wp_pose (W ! 2) = on_axis 3"
    by (simp_all add: W_def)
  have ne: "W \<noteq> []" by (simp add: W_def)
  note t = closest_waypoint_first_minimum [OF ne, of "on_axis 0", folded c_def, unfolded len]
  have c3: "c < 3" using t by blast
  have first: "distance (position (on_axis 0)) (position (wp_pose (W ! c)))
        \<le> distance (position (on_axis 0)) (position (wp_pose (W ! j))) \<and>
      (distance (position (on_axis 0)) (position (wp_pose (W ! j)))
        = distance (position (on_axis 0)) (position (wp_pose (W ! c))) \<longrightarrow> c \<le> j)"
    if "j < 3" for j
    using t that by blast
  have le0: "distance (position (on_axis 0)) (position (wp_pose (W ! c)))
      \<le> distance (position (on_axis 0)) (position (wp_pose (W ! 0)))"
    and tie0: "distance (position (on_axis 0)) (position (wp_pose (W ! 0)))
      = distance (position (on_axis 0)) (position (wp_pose (W ! c))) \<longrightarrow> c \<le> 0"
    using first [of 0] by simp_all
  consider "c = 0" | "c = 1" | "c = 2" using c3 by linarith
  then have "c = 0"
  proof cases
    case 1
    then show ?thesis .
  next
    case 2
    then show ?thesis using tie0 by (simp add: n0 n1 distance_on_axis)
  next
    case 3
    then show ?thesis using le0 by (simp add: n0 n2 distance_on_axis)
  qed
  then show ?thesis
    unfolding c_def W_def by (simp add: distance_on_axis)
qed

subsection \<open>C7: the heading refinement\<close>

text \<open>
  C7. For every pose and non-empty path, whatever \<open>atan2\<close> and the yaw extraction
  compute, \<open>get_next_waypoint\<close> returns the closest index plus one when the absolute
  difference between the yaw and the bearing to the closest waypoint exceeds \<open>pi / 4\<close>, and
  the closest index otherwise; nothing is taken modulo the length of the path.
\<close>

theorem heading_refinement:
  assumes "wpts \<noteq> []"
  shows "get_closest_waypoint ps wpts < length wpts \<and>
    get_next_waypoint atan2 yaw ps wpts =
      Inr (let closest_wp = get_closest_waypoint ps wpts;
               w = position (wp_pose (wpts ! closest_wp));
               heading = atan2 (p_y w - p_y (position ps)) (p_x w - p_x (position ps))
           in if \<bar>yaw (orientation ps) - heading\<bar> > pi / 4 then closest_wp + 1 else closest_wp)"
  using get_closest_waypoint_result [OF assms, of ps] get_next_waypoint_eq [OF assms, of atan2 yaw ps]
  by (simp add: Let_def)

text \<open>
  A path of one waypoint, behind a vehicle that heads along the x-axis: the index
  returned is 1, the length of the path.
\<close>

theorem heading_refinement_witness:
  "straight_path 1 \<noteq> [] \<and>
   get_next_waypoint math_atan2 quaternion_yaw (on_axis 1) (straight_path 1)
     = Inr (length (straight_path 1))"
proof -
  have ne: "straight_path 1 \<noteq> []"
    using length_straight_path [of 1] by auto
  note t = heading_refinement [OF ne, of "on_axis 1" math_atan2 quaternion_yaw]
  have c: "get_closest_waypoint (on_axis 1) (straight_path 1) = 0"
    using t by (simp add: length_straight_path)
  have o: "orientation (on_axis 1) = q_identity"
    and p: "p_x (position (on_axis a)) = a \<and> p_y (position (on_axis a)) = 0" for a
    by (simp_all add: on_axis_def)
  have h: "math_atan2 0 (- 1) = pi"
    by (simp add: math_atan2_def)
  have "get_next_waypoint math_atan2 quaternion_yaw (on_axis 1) (straight_path 1) = Inr 1"
    using t unfolding c
    by (simp add: Let_def nth_straight_path o p quaternion_yaw_identity h)
  then show ?thesis using ne by (simp add: length_straight_path)
qed

subsection \<open>C8: the readiness gate\<close>

text \<open>
  C8. On a tick on which the path or the pose has not been received, \<open>loop\<close> raises
  nothing, publishes nothing and leaves every attribute of the node as it is.
\<close>

theorem readiness_gate:
  assumes "base_waypoints s = None \<or> current_pose s = None"
  shows "loop atan2 yaw s = Inr (s, None) \<and> handle atan2 yaw Tick s = Inr s"
  using loop_not_ready [OF assms, of atan2 yaw] by simp

text \<open>
  A node that has received a pose and no path.
\<close>

theorem readiness_gate_witness:
  "(base_waypoints (current_pose_cb (on_axis 0) init_state) = None \<or>
      current_pose (current_pose_cb (on_axis 0) init_state) = None) \<and>
   loop math_atan2 quaternion_yaw (current_pose_cb (on_axis 0) init_state)
     = Inr (current_pose_cb (on_axis 0) init_state, None)"
proof -
  have a: "base_waypoints (current_pose_cb (on_axis 0) init_state) = None \<or>
      current_pose (current_pose_cb (on_axis 0) init_state) = None"
    by (simp add: current_pose_cb_def init_state_def)
  show ?thesis using a readiness_gate [OF a, of math_atan2 quaternion_yaw] by blast
qed

subsection \<open>C9: speeds are never negative\<close>

text \<open>
  C9. Every waypoint of a window that a tick publishes, from any state of the node, has
  a target speed of at least 0.
\<close>

theorem published_speeds_nonneg:
  assumes "loop atan2 yaw s = Inr (s', Some lane)" and "w \<in> set lane"
  shows "0 \<le> linear_x w"
proof -
  obtain wpts a b where "get_final_waypoints s' wpts a b = Inr lane"
    using loop_published [OF assms(1)] by blast
  then obtain k where "final_waypoint s' wpts b (a + int k) = Inr w"
    using get_final_waypoints_elem [OF _ assms(2)] by blast
  then show ?thesis by (rule final_waypoint_speed_nonneg)
qed

text \<open>
  The braking tick three waypoints before the stop waypoint.
\<close>

theorem published_speeds_nonneg_witness:
  "loop math_atan2 quaternion_yaw (scenario 197 200 True) =
     Inr (scenario 197 200 True, Some (straight_braking_window 5 197 200)) \<and>
   \<lparr>wp_pose = on_axis 199, linear_x = 0\<rparr> \<in> set (straight_braking_window 5 197 200) \<and>
   0 \<le> linear_x \<lparr>wp_pose = on_axis 199, linear_x = 0\<rparr>"
proof -
  have "loop math_atan2 quaternion_yaw (scenario (real 197) 200 True) =
      Inr (scenario (real 197) 200 True, Some (straight_braking_window 5 (int 197) 200))"
    by (rule tick_scenario_braking) simp_all
  then have l: "loop math_atan2 quaternion_yaw (scenario 197 200 True) =
      Inr (scenario 197 200 True, Some (straight_braking_window 5 197 200))"
    by simp
  have m: "\<lparr>wp_pose = on_axis 199, linear_x = 0\<rparr> \<in> set (straight_braking_window 5 197 200)"
    by (simp add: straight_braking_window_def py_range_def spec_braking_speed_def)
  show ?thesis
    using l m published_speeds_nonneg [OF l m] by simp
qed

subsection \<open>C10: no speed between 0 and 3\<close>

text \<open>
  C10. In the braking state every waypoint of the window gets either the speed 0, when
  it is within the 5.0 m stop buffer of the stop waypoint, or a speed of at least 3.0, when
  it is farther away.
\<close>

theorem braking_speed_gap:
  assumes "braking s" and "get_final_waypoints s wpts start_wp end_wp = Inr ws"
    and "py_index wpts end_wp = Inr stop" and "w \<in> set ws"
  shows "(distance (position (wp_pose w)) (position (wp_pose stop)) \<le> STOP_BUFFER \<and>
            linear_x w = 0) \<or>
         (STOP_BUFFER < distance (position (wp_pose w)) (position (wp_pose stop)) \<and>
            3 \<le> linear_x w)"
proof -
  obtain k where fw: "final_waypoint s wpts end_wp (start_wp + int k) = Inr w"
    using get_final_waypoints_elem [OF assms(2,4)] by blast
  have ne: "wpts \<noteq> []" by (rule final_waypoint_nonempty [OF fw])
  have "w = \<lparr>wp_pose = wp_pose (wpts ! nat ((start_wp + int k) mod int (length wpts))),
          linear_x = spec_braking_speed (current_velocity s) (start_wp + int k)
            (distance (position (wp_pose (wpts ! nat ((start_wp + int k) mod int (length wpts)))))
               (position (wp_pose stop)))\<rparr>"
    using fw final_waypoint_braking [OF ne assms(1,3), of "start_wp + int k"] by simp
  then have "linear_x w = spec_braking_speed (current_velocity s) (start_wp + int k)
      (distance (position (wp_pose w)) (position (wp_pose stop)))"
    by simp
  then show ?thesis
    using spec_braking_speed_gap [of "distance (position (wp_pose w)) (position (wp_pose stop))"
        "current_velocity s" "start_wp + int k"]
    by (simp add: STOP_BUFFER_def)
qed

text \<open>
  The braking window ten waypoints before the stop waypoint: its first waypoint is 10 m
  away and gets speed 3.0.
\<close>

theorem braking_speed_gap_witness:
  "braking (scenario 190 200 True) \<and>
   get_final_waypoints (scenario 190 200 True) (straight_path 300) 190 200 =
     Inr (straight_braking_window 5 190 200) \<and>
   py_index (straight_path 300) 200 = Inr \<lparr>wp_pose = on_axis 200, linear_x = 0\<rparr> \<and>
   \<lparr>wp_pose = on_axis 190, linear_x = 3\<rparr> \<in> set (straight_braking_window 5 190 200) \<and>
   STOP_BUFFER < distance (position (on_axis 190)) (position (on_axis 200)) \<and>
   3 \<le> linear_x \<lparr>wp_pose = on_axis 190, linear_x = 3\<rparr>"
proof -
  have b: "braking (scenario 190 200 True)"
    by (simp add: scenario_def)
  have "get_final_waypoints (scenario 190 200 True) (straight_path 300) 190 200 =
      Inr (straight_braking_window (current_velocity (scenario 190 200 True)) 190 200)"
    by (rule get_final_waypoints_straight_braking [OF b]) simp_all
  then have g: "get_final_waypoints (scenario 190 200 True) (straight_path 300) 190 200 =
      Inr (straight_braking_window 5 190 200)"
    by (simp add: scenario_def)
  have st: "py_index (straight_path 300) 200 = Inr \<lparr>wp_pose = on_axis 200, linear_x = 0\<rparr>"
    by (simp add: py_index_in_range length_straight_path nth_straight_path)
  have m: "\<lparr>wp_pose = on_axis 190, linear_x = 3\<rparr> \<in> set (straight_braking_window 5 190 200)"
    by (simp add: straight_braking_window_def py_range_def spec_braking_speed_def)
  show ?thesis
    using b g st m braking_speed_gap [OF b g st m]
    by (simp add: distance_on_axis STOP_BUFFER_def)
qed

end
